theory Spec2Isabelle
  imports Main "HOL-Library.Word"
begin

unbundle bit_operations_syntax

section \<open>The configuration file reader of lxc (src/lxc/confile.c)\<close>

text \<open>
  The reader turns the lines of a container configuration file into a
  \<open>struct lxc_conf\<close>. Every line is split into a key and a value by \<open>parse_line\<close>,
  the key selects a handler from the table \<open>config\<close>, and the handler updates the
  configuration. This theory embeds these functions and proves the properties their
  specification states.

  C strings are modelled as HOL strings (lists of characters without the terminating
  NUL); a \<open>char *\<close> that may be \<open>NULL\<close> is a \<open>string option\<close>. The handlers
  return \<open>0\<close> or \<open>-1\<close>; the model returns \<open>Success\<close> or \<open>Failure e\<close>, where
  \<open>e\<close> names the return statement after the error taxonomy of the specification.
\<close>

subsection \<open>The platform\<close>

text \<open>
  What the program takes from the platform it is compiled for: the byte order of the
  host, the limits \<open>IFNAMSIZ\<close> and \<open>MAXPATHLEN\<close>, the size of the \<open>nodename\<close>
  field of \<open>struct utsname\<close>, and \<open>LONG_BIT\<close>, the number of bits of a
  \<open>long\<close>. An \<open>int\<close> has 32 bits.
\<close>

datatype endian = LittleEndian | BigEndian

record platform =
  byte_order :: endian
  IFNAMSIZ :: nat
  MAXPATHLEN :: nat
  sizeof_nodename :: nat
  LONG_BIT :: nat

subsection \<open>The C library\<close>

text \<open>
  The allocator is outside the program. A \<open>heap\<close> lists the outcomes of the coming
  allocation requests in the order the program makes them; once the list is used up
  every further request succeeds. \<open>malloc\<close> and \<open>strdup\<close> take the next outcome.
\<close>

type_synonym heap = "bool list"

fun malloc :: "heap \<Rightarrow> bool \<times> heap" where
  "malloc [] = (True, [])"
| "malloc (b # bs) = (b, bs)"

definition strdup :: "string \<Rightarrow> heap \<Rightarrow> string option \<times> heap" where
  "strdup s h = (case malloc h of (ok, h') \<Rightarrow> (if ok then Some s else None, h'))"

text \<open>A heap on which no request fails.\<close>

definition no_fault :: "heap \<Rightarrow> bool" where
  "no_fault h = (False \<notin> set h)"

text \<open>
  \<open>strstr haystack needle\<close> is the offset of the first occurrence of the needle, or
  \<open>None\<close> for the C function's \<open>NULL\<close>. \<open>strncmp_eq s1 s2 n\<close> is
  \<open>strncmp(s1, s2, n) == 0\<close>.
\<close>

fun strstr :: "string \<Rightarrow> string \<Rightarrow> nat option" where
  "strstr [] n = (if n = [] then Some 0 else None)"
| "strstr (c # cs) n =
     (if take (length n) (c # cs) = n then Some 0
      else map_option Suc (strstr cs n))"

definition strncmp_eq :: "string \<Rightarrow> string \<Rightarrow> nat \<Rightarrow> bool" where
  "strncmp_eq s1 s2 n = (take n s1 = take n s2)"

definition isspace :: "char \<Rightarrow> bool" where
  "isspace c = (c = CHR '' '' \<or> (9 :: nat) \<le> of_char c \<and> of_char c \<le> (13 :: nat))"

definition isdigit :: "char \<Rightarrow> bool" where
  "isdigit c = ((48 :: nat) \<le> of_char c \<and> of_char c \<le> (57 :: nat))"

definition digit_val :: "char \<Rightarrow> nat" where
  "digit_val c = of_char c - 48"

text \<open>
  \<open>atoi(nptr)\<close> is \<open>(int) strtol(nptr, NULL, 10)\<close>. \<open>strtol\<close> skips leading
  white space, takes an optional sign and then the decimal digits up to the first
  other character (no digit gives 0); a number beyond the range of a \<open>long\<close> gives
  \<open>LONG_MAX\<close> or \<open>LONG_MIN\<close>. The conversion to \<open>int\<close> keeps the low 32 bits,
  read as a signed number.
\<close>

definition LONG_MAX :: "platform \<Rightarrow> int" where
  "LONG_MAX P = 2 ^ (LONG_BIT P - 1) - 1"

definition LONG_MIN :: "platform \<Rightarrow> int" where
  "LONG_MIN P = - (2 ^ (LONG_BIT P - 1))"

definition strtol_digits :: "string \<Rightarrow> int" where
  "strtol_digits s = foldl (\<lambda>n c. 10 * n + int (digit_val c)) 0 (takeWhile isdigit s)"

definition strtol :: "platform \<Rightarrow> string \<Rightarrow> int" where
  "strtol P nptr =
     (let v = (case dropWhile isspace nptr of
                 [] \<Rightarrow> 0
               | c # cs \<Rightarrow>
                   if c = CHR ''-'' then - strtol_digits cs
                   else if c = CHR ''+'' then strtol_digits cs
                   else strtol_digits (c # cs))
      in if v > LONG_MAX P then LONG_MAX P
         else if v < LONG_MIN P then LONG_MIN P
         else v)"

definition int_of_long :: "int \<Rightarrow> int" where
  "int_of_long v = (v + 2 ^ 31) mod 2 ^ 32 - 2 ^ 31"

definition atoi :: "platform \<Rightarrow> string \<Rightarrow> int" where
  "atoi P nptr = int_of_long (strtol P nptr)"

text \<open>
  \<open>struct in_addr\<close>: the four bytes of \<open>s_addr\<close> in the order they lie in memory.
  \<open>inet_pton\<close> writes an address in network byte order, first octet first.
  \<open>s_addr\<close> is the 32-bit integer a host of the given byte order reads from them.
\<close>

datatype in_addr = In_addr "8 word" "8 word" "8 word" "8 word"

fun s_addr :: "endian \<Rightarrow> in_addr \<Rightarrow> 32 word" where
  "s_addr BigEndian (In_addr b0 b1 b2 b3) =
     push_bit 24 (ucast b0) OR push_bit 16 (ucast b1) OR push_bit 8 (ucast b2) OR ucast b3"
| "s_addr LittleEndian (In_addr b0 b1 b2 b3) =
     push_bit 24 (ucast b3) OR push_bit 16 (ucast b2) OR push_bit 8 (ucast b1) OR ucast b0"

definition in_addr_zero :: in_addr where
  "in_addr_zero = In_addr 0 0 0 0"

text \<open>
  \<open>inet_pton(AF_INET, src, dst)\<close>, after the loop of the C library's
  \<open>inet_pton4\<close>: decimal fields of value at most 255 and without a leading zero,
  separated by single dots, exactly four of them. \<open>tmp\<close> holds the octets written so
  far, the one being read last. \<open>None\<close> is the return value \<open>0\<close>.
\<close>

fun inet_pton4_loop :: "string \<Rightarrow> bool \<Rightarrow> nat \<Rightarrow> nat list \<Rightarrow> nat list option" where
  "inet_pton4_loop [] saw_digit octets tmp = (if octets < 4 then None else Some tmp)"
| "inet_pton4_loop (ch # src) saw_digit octets tmp =
     (if isdigit ch then
        (let new = last tmp * 10 + digit_val ch in
         if saw_digit \<and> last tmp = 0 then None
         else if new > 255 then None
         else if \<not> saw_digit then
           (if octets + 1 > 4 then None
            else inet_pton4_loop src True (octets + 1) (butlast tmp @ [new]))
         else inet_pton4_loop src saw_digit octets (butlast tmp @ [new]))
      else if ch = CHR ''.'' \<and> saw_digit then
        (if octets = 4 then None
         else inet_pton4_loop src False octets (tmp @ [0]))
      else None)"

definition inet_pton4 :: "string \<Rightarrow> in_addr option" where
  "inet_pton4 src =
     (case inet_pton4_loop src False 0 [0] of
        Some [a, b, c, d] \<Rightarrow> Some (In_addr (of_nat a) (of_nat b) (of_nat c) (of_nat d))
      | _ \<Rightarrow> None)"

text \<open>
  \<open>struct in6_addr\<close>: the sixteen bytes of the address.
  \<open>inet_pton(AF_INET6, src, dst)\<close>, after the C library's \<open>inet_pton6\<close>: groups
  of one to four hexadecimal digits separated by colons, one \<open>::\<close> at most, which
  stands for the groups of zeros that fill the address up, and an IPv4 address in
  dotted form allowed as the last four bytes. In the loop \<open>curtok\<close> is the source
  from the start of the current group on, \<open>tmp\<close> the bytes written so far and
  \<open>colonp\<close> the place of the \<open>::\<close> in them. \<open>None\<close> is the return value
  \<open>0\<close>.
\<close>

type_synonym in6_addr = "8 word list"

definition hex_digit_value :: "char \<Rightarrow> int option" where
  "hex_digit_value ch =
     (let n = (of_char ch :: int) in
      if 48 \<le> n \<and> n \<le> 57 then Some (n - 48)
      else if 97 \<le> n \<and> n \<le> 102 then Some (n - 97 + 10)
      else if 65 \<le> n \<and> n \<le> 70 then Some (n - 65 + 10)
      else None)"

fun inet_pton6_loop ::
  "string \<Rightarrow> string \<Rightarrow> nat \<Rightarrow> int \<Rightarrow> 8 word list \<Rightarrow> nat option
     \<Rightarrow> (8 word list \<times> nat option \<times> nat \<times> int) option" where
  "inet_pton6_loop [] curtok xdigits_seen v tmp colonp = Some (tmp, colonp, xdigits_seen, v)"
| "inet_pton6_loop (ch # src) curtok xdigits_seen v tmp colonp =
     (case hex_digit_value ch of
        Some digit \<Rightarrow>
          (if xdigits_seen = 4 then None
           else if v * 16 + digit > 0xffff then None
           else inet_pton6_loop src curtok (xdigits_seen + 1) (v * 16 + digit) tmp colonp)
      | None \<Rightarrow>
          (if ch = CHR '':'' then
             (if xdigits_seen = 0 then
                (case colonp of
                   Some _ \<Rightarrow> None
                 | None \<Rightarrow> inet_pton6_loop src src xdigits_seen v tmp (Some (length tmp)))
              else if src = [] then None
              else if length tmp + 2 > 16 then None
              else inet_pton6_loop src src 0 0
                     (tmp @ [word_of_int (v div 256), word_of_int (v mod 256)]) colonp)
           else if ch = CHR ''.'' \<and> length tmp + 4 \<le> 16 then
             (case inet_pton4 curtok of
                Some (In_addr a b c d) \<Rightarrow> Some (tmp @ [a, b, c, d], colonp, 0, v)
              | None \<Rightarrow> None)
           else None))"

text \<open>
  The parts of \<open>inet_pton6\<close> around its loop: the test of a leading colon, which
  has to be the first of two; the last group, written after the loop; and the
  replacement of \<open>::\<close> by zeros, which moves the bytes written after it to the end.
\<close>

definition inet_pton6_start :: "string \<Rightarrow> string option" where
  "inet_pton6_start src =
     (case src of
        [] \<Rightarrow> None
      | c # cs \<Rightarrow>
          if c = CHR '':'' then
            (case cs of
               [] \<Rightarrow> None
             | c' # _ \<Rightarrow> if c' \<noteq> CHR '':'' then None else Some cs)
          else Some src)"

definition inet_pton6_last :: "8 word list \<Rightarrow> nat \<Rightarrow> int \<Rightarrow> 8 word list option" where
  "inet_pton6_last tmp xdigits_seen v =
     (if xdigits_seen > 0 then
        (if length tmp + 2 > 16 then None
         else Some (tmp @ [word_of_int (v div 256), word_of_int (v mod 256)]))
      else Some tmp)"

definition inet_pton6_expand :: "8 word list \<Rightarrow> nat option \<Rightarrow> 8 word list option" where
  "inet_pton6_expand tmp colonp =
     (case colonp of
        None \<Rightarrow> Some tmp
      | Some cp \<Rightarrow>
          if length tmp = 16 then None
          else Some (take cp tmp @ replicate (16 - length tmp) 0 @ drop cp tmp))"

definition inet_pton6 :: "string \<Rightarrow> in6_addr option" where
  "inet_pton6 src =
     (case inet_pton6_start src of
        None \<Rightarrow> None
      | Some src' \<Rightarrow>
          (case inet_pton6_loop src' src' 0 0 [] None of
             None \<Rightarrow> None
           | Some r \<Rightarrow>
               (case inet_pton6_last (fst r) (fst (snd (snd r))) (snd (snd (snd r))) of
                  None \<Rightarrow> None
                | Some tmp \<Rightarrow>
                    (case inet_pton6_expand tmp (fst (snd r)) of
                       None \<Rightarrow> None
                     | Some tmp' \<Rightarrow> if length tmp' \<noteq> 16 then None else Some tmp'))))"

text \<open>
  The class tests and shifts of \<open><netinet/in.h>\<close>. They take an address in host
  byte order.
\<close>

definition IN_CLASSA :: "32 word \<Rightarrow> bool" where
  "IN_CLASSA a = (a AND 0x80000000 = 0)"

definition IN_CLASSB :: "32 word \<Rightarrow> bool" where
  "IN_CLASSB a = (a AND 0xc0000000 = 0x80000000)"

definition IN_CLASSC :: "32 word \<Rightarrow> bool" where
  "IN_CLASSC a = (a AND 0xe0000000 = 0xc0000000)"

definition IN_CLASSA_NSHIFT :: int where "IN_CLASSA_NSHIFT = 24"
definition IN_CLASSB_NSHIFT :: int where "IN_CLASSB_NSHIFT = 16"
definition IN_CLASSC_NSHIFT :: int where "IN_CLASSC_NSHIFT = 8"

definition IFF_UP :: "32 word" where "IFF_UP = 1"

subsection \<open>The configuration\<close>

text \<open>
  Modelled from the spec: the list of \<open>list.h\<close>, which is not among the sources.
  A \<open>struct lxc_list\<close> head is modelled as the list of the elements of its nodes,
  first node first. \<open>lxc_list_empty\<close> tells whether the head has no node.
\<close>

definition lxc_list_empty :: "'a list \<Rightarrow> bool" where
  "lxc_list_empty head = (case head of [] \<Rightarrow> True | _ # _ \<Rightarrow> False)"

text \<open>
  Modelled from the spec: \<open>lxc_list_first_elem\<close> of \<open>list.h\<close>, the element of the
  first node ("current device (list head)"); \<open>None\<close> is the \<open>NULL\<close> an empty list
  gives.
\<close>

definition lxc_list_first_elem :: "'a list \<Rightarrow> 'a option" where
  "lxc_list_first_elem head = (case head of [] \<Rightarrow> None | x # _ \<Rightarrow> Some x)"

text \<open>
  Modelled from the spec: \<open>lxc_list_add\<close> of \<open>list.h\<close>, which links the new node
  right after the head: the handler of \<open>lxc.network.type\<close> calls it, and the device
  list is "prepended (newest first)", its head being "the most recently declared"
  device.
\<close>

definition lxc_list_add :: "'a list \<Rightarrow> 'a \<Rightarrow> 'a list" where
  "lxc_list_add head elem = elem # head"

text \<open>
  Modelled from the spec: \<open>lxc_list_add_tail\<close> of \<open>list.h\<close>, which links the new
  node last: the handlers of \<open>lxc.cgroup\<close> and \<open>lxc.mount.entry\<close> call it, and
  their lists are "appended (tail)", in "declaration order".
\<close>

definition lxc_list_add_tail :: "'a list \<Rightarrow> 'a \<Rightarrow> 'a list" where
  "lxc_list_add_tail head elem = head @ [elem]"

text \<open>
  Modelled from the spec: the structures of \<open>conf.h\<close>, which is not among the
  sources, with the fields the handlers use and the data model of the specification.
  The first is the enumeration of the device types.
\<close>

datatype netdev_type = VETH | MACVLAN | PHYS | EMPTY

text \<open>
  Modelled from the spec: \<open>struct lxc_inetdev\<close> of \<open>conf.h\<close>, an IPv4 binding:
  address, broadcast address and prefix length.
\<close>

record lxc_inetdev =
  addr :: in_addr
  bcast :: in_addr
  prefix :: int

text \<open>
  Modelled from the spec: \<open>struct lxc_inet6dev\<close> of \<open>conf.h\<close>, an IPv6 binding:
  address and prefix length.
\<close>

record lxc_inet6dev =
  addr6 :: in6_addr
  prefix6 :: int

text \<open>
  Modelled from the spec: \<open>struct lxc_netdev\<close> of \<open>conf.h\<close>, a network device.
  Its \<open>type\<close> is \<open>None\<close> as long as it holds the zero of \<open>memset\<close> and no
  handler has assigned an enumerator.
\<close>

record lxc_netdev =
  type :: "netdev_type option"
  flags :: "32 word"
  link :: "string option"
  name :: "string option"
  hwaddr :: "string option"
  mtu :: "string option"
  ipv4 :: "lxc_inetdev list"
  ipv6 :: "lxc_inet6dev list"

text \<open>
  Modelled from the spec: \<open>struct lxc_cgroup\<close> of \<open>conf.h\<close>, a cgroup entry. Its
  field \<open>value\<close> is named \<open>cgroup_value\<close> here.
\<close>

record lxc_cgroup =
  subsystem :: "string option"
  cgroup_value :: "string option"

text \<open>
  \<open>struct utsname\<close> of \<open><sys/utsname.h>\<close>, of which the handler writes the
  \<open>nodename\<close> only.
\<close>

record utsname =
  nodename :: string

text \<open>
  Modelled from the spec: \<open>struct lxc_conf\<close> of \<open>conf.h\<close>, the configuration
  ("Configuration Aggregate"), with the fields the handlers write.
\<close>

record lxc_conf =
  network :: "lxc_netdev list"
  cgroup :: "lxc_cgroup list"
  mount_list :: "string option list"
  fstab :: "string option"
  rootfs :: "string option"
  pivotdir :: "string option"
  utsname :: "utsname option"
  pts :: int
  tty :: int

text \<open>
  Modelled from the spec: the configuration the caller hands to the reader, which
  \<open>conf.c\<close> (not among the sources) initialises: "created empty", both counts 0.
\<close>

definition lxc_conf_init :: lxc_conf where
  "lxc_conf_init =
     \<lparr>network = [], cgroup = [], mount_list = [], fstab = None, rootfs = None,
      pivotdir = None, utsname = None, pts = 0, tty = 0\<rparr>"

text \<open>The blocks the handlers allocate, after \<open>memset(..., 0, ...)\<close> and \<open>lxc_list_init\<close>.\<close>

definition netdev_zero :: lxc_netdev where
  "netdev_zero =
     \<lparr>type = None, flags = 0, link = None, name = None, hwaddr = None, mtu = None,
      ipv4 = [], ipv6 = []\<rparr>"

definition inetdev_zero :: lxc_inetdev where
  "inetdev_zero = \<lparr>addr = in_addr_zero, bcast = in_addr_zero, prefix = 0\<rparr>"

definition inet6dev_zero :: lxc_inet6dev where
  "inet6dev_zero = \<lparr>addr6 = replicate 16 0, prefix6 = 0\<rparr>"

subsection \<open>Results\<close>

text \<open>
  Every failing \<open>return\<close> of the source returns \<open>-1\<close>. The model tells them apart
  by the kinds of the specification: a line without \<open>=\<close> or a malformed sub-key
  (\<open>InvalidDirective\<close>), a key no table entry matches (\<open>UnknownDirective\<close>), a bad
  enumerated value or interface name (\<open>InvalidValue\<close>), an address \<open>inet_pton\<close>
  rejects (\<open>InvalidAddress\<close>), a device field without a device
  (\<open>MissingContext\<close>), a value at or over a length limit (\<open>PathTooLong\<close>,
  \<open>NameTooLong\<close>) and a failed allocation (\<open>AllocationFailure\<close>).
\<close>

datatype error =
  InvalidDirective | UnknownDirective | InvalidValue | InvalidAddress
  | MissingContext | PathTooLong | NameTooLong | AllocationFailure

datatype retval = Success | Failure error

text \<open>
  A handler \<open>int cb(const char *key, char *value, struct lxc_conf *lxc_conf)\<close> takes
  the key, the value, the configuration and the heap, and returns its result with the
  configuration and the heap as it leaves them.
\<close>

type_synonym config_cb = "string \<Rightarrow> string \<Rightarrow> lxc_conf \<Rightarrow> heap \<Rightarrow> retval \<times> lxc_conf \<times> heap"

record struct_config =
  name_cfg :: string
  cb :: config_cb

subsection \<open>The network handlers\<close>

text \<open>
  \<open>lxc.network.type\<close> allocates a device and its list node, links the node at the
  head of the device list and only then compares the value with the four type names.
\<close>

definition config_network_type :: config_cb where
  "config_network_type key val lxc_conf h =
     (case malloc h of (ok1, h1) \<Rightarrow>
      if \<not> ok1 then (Failure AllocationFailure, lxc_conf, h1)
      else
        (case malloc h1 of (ok2, h2) \<Rightarrow>
         if \<not> ok2 then (Failure AllocationFailure, lxc_conf, h2)
         else
           (let netdev = netdev_zero;
                network' = lxc_list_add (network lxc_conf) netdev;
                set_type = (\<lambda>t. lxc_conf\<lparr>network := netdev\<lparr>type := Some t\<rparr> # tl network'\<rparr>)
            in if val = ''veth'' then (Success, set_type VETH, h2)
               else if val = ''macvlan'' then (Success, set_type MACVLAN, h2)
               else if val = ''phys'' then (Success, set_type PHYS, h2)
               else if val = ''empty'' then (Success, set_type EMPTY, h2)
               else (Failure InvalidValue, lxc_conf\<lparr>network := network'\<rparr>, h2))))"

definition config_ip_prefix :: "platform \<Rightarrow> in_addr \<Rightarrow> int" where
  "config_ip_prefix P a =
     (if IN_CLASSA (s_addr (byte_order P) a) then 32 - IN_CLASSA_NSHIFT
      else if IN_CLASSB (s_addr (byte_order P) a) then 32 - IN_CLASSB_NSHIFT
      else if IN_CLASSC (s_addr (byte_order P) a) then 32 - IN_CLASSC_NSHIFT
      else 0)"

text \<open>
  \<open>network_netdev\<close> returns the element of the first node of the device list, or
  \<open>None\<close> (the C function's \<open>NULL\<close>) when the list is empty or that element is
  missing. The handlers write through the pointer it returns; \<open>store_netdev\<close> is
  that write: the first element of the device list is replaced.
\<close>

definition network_netdev :: "lxc_netdev list \<Rightarrow> lxc_netdev option" where
  "network_netdev network' =
     (if lxc_list_empty network' then None
      else (case lxc_list_first_elem network' of None \<Rightarrow> None | Some netdev \<Rightarrow> Some netdev))"

definition store_netdev :: "lxc_netdev \<Rightarrow> lxc_conf \<Rightarrow> lxc_conf" where
  "store_netdev netdev lxc_conf = lxc_conf\<lparr>network := netdev # tl (network lxc_conf)\<rparr>"

text \<open>
  \<open>network_ifname valuep value\<close>: the result, and the pointer \<open>*valuep\<close> as the
  function leaves it (\<open>old\<close> is what it held before).
\<close>

definition network_ifname ::
  "platform \<Rightarrow> string option \<Rightarrow> string \<Rightarrow> heap \<Rightarrow> retval \<times> string option \<times> heap" where
  "network_ifname P old val h =
     (if length val > IFNAMSIZ P then (Failure InvalidValue, old, h)
      else
        (case strdup val h of
           (None, h1) \<Rightarrow> (Failure AllocationFailure, None, h1)
         | (Some s, h1) \<Rightarrow> (Success, Some s, h1)))"

definition config_network_flags :: config_cb where
  "config_network_flags key val lxc_conf h =
     (case network_netdev (network lxc_conf) of
        None \<Rightarrow> (Failure MissingContext, lxc_conf, h)
      | Some netdev \<Rightarrow>
          (Success, store_netdev (netdev\<lparr>flags := flags netdev OR IFF_UP\<rparr>) lxc_conf, h))"

definition config_network_link :: "platform \<Rightarrow> config_cb" where
  "config_network_link P key val lxc_conf h =
     (case network_netdev (network lxc_conf) of
        None \<Rightarrow> (Failure MissingContext, lxc_conf, h)
      | Some netdev \<Rightarrow>
          (case network_ifname P (link netdev) val h of
             (r, p, h1) \<Rightarrow> (r, store_netdev (netdev\<lparr>link := p\<rparr>) lxc_conf, h1)))"

definition config_network_name :: "platform \<Rightarrow> config_cb" where
  "config_network_name P key val lxc_conf h =
     (case network_netdev (network lxc_conf) of
        None \<Rightarrow> (Failure MissingContext, lxc_conf, h)
      | Some netdev \<Rightarrow>
          (case network_ifname P (name netdev) val h of
             (r, p, h1) \<Rightarrow> (r, store_netdev (netdev\<lparr>name := p\<rparr>) lxc_conf, h1)))"

definition config_network_hwaddr :: config_cb where
  "config_network_hwaddr key val lxc_conf h =
     (case network_netdev (network lxc_conf) of
        None \<Rightarrow> (Failure MissingContext, lxc_conf, h)
      | Some netdev \<Rightarrow>
          (case strdup val h of
             (None, h1) \<Rightarrow>
               (Failure AllocationFailure, store_netdev (netdev\<lparr>hwaddr := None\<rparr>) lxc_conf, h1)
           | (Some s, h1) \<Rightarrow>
               (Success, store_netdev (netdev\<lparr>hwaddr := Some s\<rparr>) lxc_conf, h1)))"

definition config_network_mtu :: config_cb where
  "config_network_mtu key val lxc_conf h =
     (case network_netdev (network lxc_conf) of
        None \<Rightarrow> (Failure MissingContext, lxc_conf, h)
      | Some netdev \<Rightarrow>
          (case strdup val h of
             (None, h1) \<Rightarrow>
               (Failure AllocationFailure, store_netdev (netdev\<lparr>mtu := None\<rparr>) lxc_conf, h1)
           | (Some s, h1) \<Rightarrow>
               (Success, store_netdev (netdev\<lparr>mtu := Some s\<rparr>) lxc_conf, h1)))"

text \<open>
  \<open>split_at s sep\<close> is what \<open>p = strstr(s, sep); if (p) { *p = '\0'; rest = p + 1; }\<close>
  leaves for a separator of one character: the string up to the separator, and the
  rest after it, \<open>None\<close> when the separator does not occur.
\<close>

definition split_at :: "string \<Rightarrow> string \<Rightarrow> string \<times> string option" where
  "split_at s sep =
     (case strstr s sep of
        None \<Rightarrow> (s, None)
      | Some i \<Rightarrow> (take i s, Some (drop (Suc i) s)))"

text \<open>
  \<open>lxc.network.ipv4\<close>. The test \<open>if (!addr)\<close> of the source cannot fire, as
  \<open>addr\<close> is the value itself.
\<close>

definition config_network_ipv4 :: "platform \<Rightarrow> config_cb" where
  "config_network_ipv4 P key val lxc_conf h =
     (case network_netdev (network lxc_conf) of
        None \<Rightarrow> (Failure MissingContext, lxc_conf, h)
      | Some netdev \<Rightarrow>
        (case malloc h of (ok1, h1) \<Rightarrow>
         if \<not> ok1 then (Failure AllocationFailure, lxc_conf, h1)
         else
           (case malloc h1 of (ok2, h2) \<Rightarrow>
            if \<not> ok2 then (Failure AllocationFailure, lxc_conf, h2)
            else
              (case split_at val '' '' of (addr0, bcast_s) \<Rightarrow>
              (case split_at addr0 ''/'' of (addr_s, prefix_s) \<Rightarrow>
              (case inet_pton4 addr_s of
                 None \<Rightarrow> (Failure InvalidAddress, lxc_conf, h2)
               | Some a \<Rightarrow>
                 (case (case bcast_s of
                          None \<Rightarrow> Some in_addr_zero
                        | Some b \<Rightarrow> inet_pton4 b) of
                    None \<Rightarrow> (Failure InvalidAddress, lxc_conf, h2)
                  | Some b \<Rightarrow>
                      (let inetdev =
                         inetdev_zero\<lparr>addr := a, bcast := b,
                           prefix := (case prefix_s of
                                        Some p \<Rightarrow> atoi P p
                                      | None \<Rightarrow> config_ip_prefix P a)\<rparr>
                       in (Success,
                           store_netdev
                             (netdev\<lparr>ipv4 := lxc_list_add (ipv4 netdev) inetdev\<rparr>) lxc_conf,
                           h2)))))))))"

definition config_network_ipv6 :: "platform \<Rightarrow> config_cb" where
  "config_network_ipv6 P key val lxc_conf h =
     (case network_netdev (network lxc_conf) of
        None \<Rightarrow> (Failure MissingContext, lxc_conf, h)
      | Some netdev \<Rightarrow>
        (case malloc h of (ok1, h1) \<Rightarrow>
         if \<not> ok1 then (Failure AllocationFailure, lxc_conf, h1)
         else
           (case malloc h1 of (ok2, h2) \<Rightarrow>
            if \<not> ok2 then (Failure AllocationFailure, lxc_conf, h2)
            else
              (case split_at val ''/'' of (addr_s, netmask) \<Rightarrow>
              (case inet_pton6 addr_s of
                 None \<Rightarrow> (Failure InvalidAddress, lxc_conf, h2)
               | Some a \<Rightarrow>
                   (let inet6dev =
                      inet6dev_zero\<lparr>addr6 := a,
                        prefix6 := (case netmask of None \<Rightarrow> 64 | Some m \<Rightarrow> atoi P m)\<rparr>
                    in (Success,
                        store_netdev
                          (netdev\<lparr>ipv6 := lxc_list_add (ipv6 netdev) inet6dev\<rparr>) lxc_conf,
                        h2)))))))"

subsection \<open>The other handlers\<close>

definition config_pts :: "platform \<Rightarrow> config_cb" where
  "config_pts P key val lxc_conf h =
     (let maxpts = atoi P val in (Success, lxc_conf\<lparr>pts := maxpts\<rparr>, h))"

definition config_tty :: "platform \<Rightarrow> config_cb" where
  "config_tty P key val lxc_conf h =
     (let nbtty = atoi P val in (Success, lxc_conf\<lparr>tty := nbtty\<rparr>, h))"

text \<open>
  \<open>lxc.cgroup\<close>. The two copies of \<open>strdup\<close> are stored unchecked. \<open>free\<close>
  takes no outcome from the heap.
\<close>

definition config_cgroup :: config_cb where
  "config_cgroup key val lxc_conf h =
     (let token = ''lxc.cgroup.'' in
      case strstr key token of
        None \<Rightarrow> (Failure InvalidDirective, lxc_conf, h)
      | Some i \<Rightarrow>
         (let subkey = drop i key in
          if length subkey = 0 then (Failure InvalidDirective, lxc_conf, h)
          else if length subkey = length token then (Failure InvalidDirective, lxc_conf, h)
          else
            (let subkey' = drop (length token) subkey in
             case malloc h of (ok1, h1) \<Rightarrow>
             if \<not> ok1 then (Failure AllocationFailure, lxc_conf, h1)
             else
               (case malloc h1 of (ok2, h2) \<Rightarrow>
                if \<not> ok2 then (Failure AllocationFailure, lxc_conf, h2)
                else
                  (case strdup subkey' h2 of (s1, h3) \<Rightarrow>
                  (case strdup val h3 of (s2, h4) \<Rightarrow>
                     (let cgelem = \<lparr>subsystem = s1, cgroup_value = s2\<rparr>
                      in (Success,
                          lxc_conf\<lparr>cgroup := lxc_list_add_tail (cgroup lxc_conf) cgelem\<rparr>,
                          h4))))))))"

definition config_fstab :: "platform \<Rightarrow> config_cb" where
  "config_fstab P key val lxc_conf h =
     (if length val \<ge> MAXPATHLEN P then (Failure PathTooLong, lxc_conf, h)
      else
        (case strdup val h of
           (None, h1) \<Rightarrow> (Failure AllocationFailure, lxc_conf\<lparr>fstab := None\<rparr>, h1)
         | (Some s, h1) \<Rightarrow> (Success, lxc_conf\<lparr>fstab := Some s\<rparr>, h1)))"

definition config_mount :: "platform \<Rightarrow> config_cb" where
  "config_mount P key val lxc_conf h =
     (let fstab_token = ''lxc.mount''; token = ''lxc.mount.entry'' in
      case strstr key token of
        None \<Rightarrow>
          (case strstr key fstab_token of
             None \<Rightarrow> (Failure InvalidDirective, lxc_conf, h)
           | Some _ \<Rightarrow> config_fstab P key val lxc_conf h)
      | Some i \<Rightarrow>
         (let subkey = drop i key in
          if length subkey = 0 then (Failure InvalidDirective, lxc_conf, h)
          else
            (case malloc h of (ok1, h1) \<Rightarrow>
             if \<not> ok1 then (Failure AllocationFailure, lxc_conf, h1)
             else
               (case strdup val h1 of (mntelem, h2) \<Rightarrow>
                  (Success,
                   lxc_conf\<lparr>mount_list := lxc_list_add_tail (mount_list lxc_conf) mntelem\<rparr>,
                   h2)))))"

definition config_rootfs :: "platform \<Rightarrow> config_cb" where
  "config_rootfs P key val lxc_conf h =
     (if length val \<ge> MAXPATHLEN P then (Failure PathTooLong, lxc_conf, h)
      else
        (case strdup val h of
           (None, h1) \<Rightarrow> (Failure AllocationFailure, lxc_conf\<lparr>rootfs := None\<rparr>, h1)
         | (Some s, h1) \<Rightarrow> (Success, lxc_conf\<lparr>rootfs := Some s\<rparr>, h1)))"

definition config_pivotdir :: "platform \<Rightarrow> config_cb" where
  "config_pivotdir P key val lxc_conf h =
     (if length val \<ge> MAXPATHLEN P then (Failure PathTooLong, lxc_conf, h)
      else
        (case strdup val h of
           (None, h1) \<Rightarrow> (Failure AllocationFailure, lxc_conf\<lparr>pivotdir := None\<rparr>, h1)
         | (Some s, h1) \<Rightarrow> (Success, lxc_conf\<lparr>pivotdir := Some s\<rparr>, h1)))"

definition config_utsname :: "platform \<Rightarrow> config_cb" where
  "config_utsname P key val lxc_conf h =
     (case malloc h of (ok1, h1) \<Rightarrow>
      if \<not> ok1 then (Failure AllocationFailure, lxc_conf, h1)
      else if length val \<ge> sizeof_nodename P then (Failure NameTooLong, lxc_conf, h1)
      else (Success, lxc_conf\<lparr>utsname := Some \<lparr>nodename = val\<rparr>\<rparr>, h1))"

subsection \<open>The table and the line parser\<close>

definition config :: "platform \<Rightarrow> struct_config list" where
  "config P =
     [\<lparr>name_cfg = ''lxc.pts'', cb = config_pts P\<rparr>,
      \<lparr>name_cfg = ''lxc.tty'', cb = config_tty P\<rparr>,
      \<lparr>name_cfg = ''lxc.cgroup'', cb = config_cgroup\<rparr>,
      \<lparr>name_cfg = ''lxc.mount'', cb = config_mount P\<rparr>,
      \<lparr>name_cfg = ''lxc.rootfs'', cb = config_rootfs P\<rparr>,
      \<lparr>name_cfg = ''lxc.utsname'', cb = config_utsname P\<rparr>,
      \<lparr>name_cfg = ''lxc.network.type'', cb = config_network_type\<rparr>,
      \<lparr>name_cfg = ''lxc.pivotdir'', cb = config_pivotdir P\<rparr>,
      \<lparr>name_cfg = ''lxc.network.flags'', cb = config_network_flags\<rparr>,
      \<lparr>name_cfg = ''lxc.network.link'', cb = config_network_link P\<rparr>,
      \<lparr>name_cfg = ''lxc.network.name'', cb = config_network_name P\<rparr>,
      \<lparr>name_cfg = ''lxc.network.hwaddr'', cb = config_network_hwaddr\<rparr>,
      \<lparr>name_cfg = ''lxc.network.mtu'', cb = config_network_mtu\<rparr>,
      \<lparr>name_cfg = ''lxc.network.ipv4'', cb = config_network_ipv4 P\<rparr>,
      \<lparr>name_cfg = ''lxc.network.ipv6'', cb = config_network_ipv6 P\<rparr>]"

text \<open>The loop of \<open>getconfig\<close>, over the entries from index \<open>i\<close> on.\<close>

fun getconfig_from :: "struct_config list \<Rightarrow> string \<Rightarrow> struct_config option" where
  "getconfig_from [] key = None"
| "getconfig_from (c # cs) key =
     (if strncmp_eq (name_cfg c) key (length (name_cfg c)) then Some c
      else getconfig_from cs key)"

definition getconfig :: "platform \<Rightarrow> string \<Rightarrow> struct_config option" where
  "getconfig P key = getconfig_from (config P) key"

text \<open>
  Modelled from the spec: \<open>lxc_is_line_empty\<close> of \<open>parse.h\<close>, which is not among
  the sources. After the specification the helpers of \<open>parse.h\<close> trim white space,
  and a line that is empty after trimming on the left is skipped: the function holds
  for a line of white space only. White space is what \<open>isspace\<close> accepts.
\<close>

definition lxc_is_line_empty :: "string \<Rightarrow> bool" where
  "lxc_is_line_empty line = (dropWhile isspace line = [])"

text \<open>
  Modelled from the spec: \<open>lxc_char_left_gc\<close> of \<open>parse.h\<close>, the number of
  white-space characters the buffer starts with ("left-trim").
\<close>

definition lxc_char_left_gc :: "string \<Rightarrow> nat \<Rightarrow> nat" where
  "lxc_char_left_gc buffer len = length (takeWhile isspace (take len buffer))"

text \<open>
  Modelled from the spec: \<open>lxc_char_right_gc\<close> of \<open>parse.h\<close>, the length of the
  buffer without the white space it ends with ("right-trim").
\<close>

definition lxc_char_right_gc :: "string \<Rightarrow> nat \<Rightarrow> nat" where
  "lxc_char_right_gc buffer len = length (dropWhile isspace (rev (take len buffer)))"

definition parse_line :: "platform \<Rightarrow> string \<Rightarrow> lxc_conf \<Rightarrow> heap \<Rightarrow> retval \<times> lxc_conf \<times> heap" where
  "parse_line P buffer lxc_conf h =
     (if lxc_is_line_empty buffer then (Success, lxc_conf, h)
      else
        (let line = drop (lxc_char_left_gc buffer (length buffer)) buffer in
         if take 1 line = ''#'' then (Success, lxc_conf, h)
         else
           (case strstr line ''='' of
              None \<Rightarrow> (Failure InvalidDirective, lxc_conf, h)
            | Some dot \<Rightarrow>
                (let val0 = drop (Suc dot) line;
                     key0 = take dot line;
                     key = take (lxc_char_right_gc key0 (length key0)) key0;
                     val1 = drop (lxc_char_left_gc val0 (length val0)) val0;
                     val = take (lxc_char_right_gc val1 (length val1)) val1
                 in case getconfig P key of
                      None \<Rightarrow> (Failure UnknownDirective, lxc_conf, h)
                    | Some c \<Rightarrow> cb c key val lxc_conf h))))"

text \<open>
  Modelled from the spec: \<open>lxc_file_for_each_line\<close> of \<open>parse.c\<close>, which is not
  among the sources. It hands the lines of the file to the callback one after the
  other and stops at the first line on which the callback fails. The model takes the
  lines of a file that could be opened.
\<close>

fun lxc_file_for_each_line ::
  "string list \<Rightarrow> (string \<Rightarrow> lxc_conf \<Rightarrow> heap \<Rightarrow> retval \<times> lxc_conf \<times> heap)
     \<Rightarrow> lxc_conf \<Rightarrow> heap \<Rightarrow> retval \<times> lxc_conf \<times> heap" where
  "lxc_file_for_each_line [] callback lxc_conf h = (Success, lxc_conf, h)"
| "lxc_file_for_each_line (l # ls) callback lxc_conf h =
     (case callback l lxc_conf h of
        (Success, lxc_conf', h') \<Rightarrow> lxc_file_for_each_line ls callback lxc_conf' h'
      | (Failure e, lxc_conf', h') \<Rightarrow> (Failure e, lxc_conf', h'))"

definition lxc_config_read :: "platform \<Rightarrow> string list \<Rightarrow> lxc_conf \<Rightarrow> heap \<Rightarrow> retval \<times> lxc_conf \<times> heap" where
  "lxc_config_read P file conf h = lxc_file_for_each_line file (parse_line P) conf h"

text \<open>
  A Linux host of little-endian byte order with a \<open>long\<close> of 64 bits, and the
  limits of its headers.
\<close>

definition linux_le :: platform where
  "linux_le =
     \<lparr>byte_order = LittleEndian, IFNAMSIZ = 16, MAXPATHLEN = 4096,
      sizeof_nodename = 65, LONG_BIT = 64\<rparr>"

subsection \<open>Trimming, as the specification words it\<close>

text \<open>
  The specification speaks of a line, a key and a value trimmed of white space on the
  left and on the right. These two functions say so directly; \<open>parse_line\<close>
  computes offsets and lengths instead, and is compared with them below.
\<close>

definition spec_ltrim :: "string \<Rightarrow> string" where
  "spec_ltrim s = dropWhile isspace s"

definition spec_rtrim :: "string \<Rightarrow> string" where
  "spec_rtrim s = rev (dropWhile isspace (rev s))"

subsection \<open>The address classes, as the specification words them\<close>

text \<open>
  The prefix length the specification derives from the historical class of an
  address, which its first octet decides: class A (below 128) gives 8, class B
  (below 192) gives 16, class C (below 224) gives 24, any other address 0.
\<close>

definition spec_classful_prefix :: "8 word \<Rightarrow> int" where
  "spec_classful_prefix o1 =
     (if o1 < 128 then 8 else if o1 < 192 then 16 else if o1 < 224 then 24 else 0)"

section \<open>Properties\<close>

subsection \<open>Auxiliary facts\<close>

lemma no_fault_malloc: "no_fault h \<Longrightarrow> malloc h = (True, tl h)"
  by (cases h) (auto simp: no_fault_def)

lemma no_fault_tl: "no_fault h \<Longrightarrow> no_fault (tl h)"
  by (cases h) (auto simp: no_fault_def)

lemma no_fault_strdup: "no_fault h \<Longrightarrow> strdup s h = (Some s, tl h)"
  by (simp add: strdup_def no_fault_malloc)

lemma network_netdev_Nil: "network_netdev [] = None"
  by (simp add: network_netdev_def lxc_list_empty_def)

lemma network_netdev_Cons: "network_netdev (d # ds) = Some d"
  by (simp add: network_netdev_def lxc_list_empty_def lxc_list_first_elem_def)

lemma strstr_Some_take: "strstr s n = Some i \<Longrightarrow> take (length n) (drop i s) = n"
proof (induction s arbitrary: i)
  case Nil
  then show ?case by (simp split: if_splits)
next
  case (Cons c cs)
  then show ?case by (auto split: if_splits)
qed

lemma strstr_Some_le: "strstr s n = Some i \<Longrightarrow> i + length n \<le> length s"
proof (induction s arbitrary: i)
  case Nil
  then show ?case by (simp split: if_splits)
next
  case (Cons c cs)
  show ?case
  proof (cases "take (length n) (c # cs) = n")
    case True
    then have "length (take (length n) (c # cs)) = length n"
      by simp
    then have "length n \<le> length (c # cs)"
      by (simp only: length_take min_def split: if_splits)
    with True Cons.prems show ?thesis by simp
  next
    case False
    with Cons show ?thesis by auto
  qed
qed

lemma strstr_append: "\<exists>i. strstr (pre @ n @ suf) n = Some i \<and> i \<le> length pre"
proof (induction pre)
  case Nil
  have "take (length n) (n @ suf) = n" by simp
  then show ?case by (cases "n @ suf") auto
next
  case (Cons c pre)
  then show ?case by auto
qed

lemma strstr_None_iff: "strstr s n = None \<longleftrightarrow> (\<nexists>pre suf. s = pre @ n @ suf)"
proof
  assume "strstr s n = None"
  then show "\<nexists>pre suf. s = pre @ n @ suf"
    using strstr_append [of _ n] by (metis option.distinct(1))
next
  assume a: "\<nexists>pre suf. s = pre @ n @ suf"
  show "strstr s n = None"
  proof (rule ccontr)
    assume "strstr s n \<noteq> None"
    then obtain i where i: "strstr s n = Some i" by auto
    have "s = take i s @ take (length n) (drop i s) @ drop (length n) (drop i s)"
      by (metis append_take_drop_id)
    with strstr_Some_take [OF i] a show False by metis
  qed
qed

lemma strstr_char_first:
  "c \<notin> set pre \<Longrightarrow> strstr (pre @ c # suf) [c] = Some (length pre)"
  by (induction pre) auto

lemma strstr_char_None: "c \<notin> set s \<Longrightarrow> strstr s [c] = None"
  by (induction s) auto

lemma split_at_first:
  "c \<notin> set pre \<Longrightarrow> split_at (pre @ c # suf) [c] = (pre, Some suf)"
  by (simp add: split_at_def strstr_char_first)

lemma split_at_None: "c \<notin> set s \<Longrightarrow> split_at s [c] = (s, None)"
  by (simp add: split_at_def strstr_char_None)

lemma config_utsname_too_long_fails:
  "length val \<ge> sizeof_nodename P \<Longrightarrow>
     \<exists>e h'. config_utsname P key val conf h = (Failure e, conf, h')"
  by (auto simp: config_utsname_def split: prod.splits)

lemma atoi_range: "- (2 ^ 31) \<le> atoi P s \<and> atoi P s < 2 ^ 31"
proof -
  have "0 \<le> (strtol P s + 2 ^ 31) mod 2 ^ 32" "(strtol P s + 2 ^ 31) mod 2 ^ 32 < 2 ^ 32"
    by simp_all
  then show ?thesis
    by (simp add: atoi_def int_of_long_def)
qed

lemma store_netdev_eq:
  "network conf = d # ds \<Longrightarrow> store_netdev d' conf = conf\<lparr>network := d' # ds\<rparr>"
  by (simp add: store_netdev_def)

lemma store_netdev_same: "network conf = d # ds \<Longrightarrow> store_netdev d conf = conf"
  by (simp add: store_netdev_def)

lemma flags_fail: "config_network_flags key val conf h = (Failure e, conf', h') \<Longrightarrow> conf' = conf"
  by (auto simp: config_network_flags_def split: option.splits)

lemma ifname_fail:
  "network_ifname P old val h = (Failure e, p, h') \<Longrightarrow> e \<noteq> AllocationFailure \<Longrightarrow> p = old"
  by (auto simp: network_ifname_def split: if_splits prod.splits option.splits)

lemma netdev_Some: "network_netdev nw = Some d \<Longrightarrow> \<exists>ds. nw = d # ds"
  by (cases nw) (auto simp: network_netdev_Nil network_netdev_Cons)

lemma link_fail:
  assumes "config_network_link P key val conf h = (Failure e, conf', h')" "e \<noteq> AllocationFailure"
  shows "conf' = conf"
proof (cases "network conf")
  case Nil
  with assms show ?thesis by (simp add: config_network_link_def network_netdev_Nil)
next
  case (Cons d ds)
  obtain r p h1 where i: "network_ifname P (link d) val h = (r, p, h1)"
    by (cases "network_ifname P (link d) val h") auto
  with assms Cons have "r = Failure e" "conf' = store_netdev (d\<lparr>link := p\<rparr>) conf"
    by (auto simp: config_network_link_def network_netdev_Cons)
  moreover from this i assms have "p = link d" by (auto dest: ifname_fail)
  ultimately show ?thesis using Cons by (simp add: store_netdev_same)
qed

lemma name_fail:
  assumes "config_network_name P key val conf h = (Failure e, conf', h')" "e \<noteq> AllocationFailure"
  shows "conf' = conf"
proof (cases "network conf")
  case Nil
  with assms show ?thesis by (simp add: config_network_name_def network_netdev_Nil)
next
  case (Cons d ds)
  obtain r p h1 where i: "network_ifname P (name d) val h = (r, p, h1)"
    by (cases "network_ifname P (name d) val h") auto
  with assms Cons have "r = Failure e" "conf' = store_netdev (d\<lparr>name := p\<rparr>) conf"
    by (auto simp: config_network_name_def network_netdev_Cons)
  moreover from this i assms have "p = name d" by (auto dest: ifname_fail)
  ultimately show ?thesis using Cons by (simp add: store_netdev_same)
qed

lemma hwaddr_fail:
  "config_network_hwaddr key val conf h = (Failure e, conf', h') \<Longrightarrow> e \<noteq> AllocationFailure
     \<Longrightarrow> conf' = conf"
  by (auto simp: config_network_hwaddr_def split: option.splits prod.splits)

lemma mtu_fail:
  "config_network_mtu key val conf h = (Failure e, conf', h') \<Longrightarrow> e \<noteq> AllocationFailure
     \<Longrightarrow> conf' = conf"
  by (auto simp: config_network_mtu_def split: option.splits prod.splits)

lemma ipv4_fail:
  "config_network_ipv4 P key val conf h = (Failure e, conf', h') \<Longrightarrow> conf' = conf"
  by (auto simp: config_network_ipv4_def Let_def split: option.splits prod.splits if_splits)

lemma ipv6_fail:
  "config_network_ipv6 P key val conf h = (Failure e, conf', h') \<Longrightarrow> conf' = conf"
  by (auto simp: config_network_ipv6_def Let_def split: option.splits prod.splits if_splits)

lemma cgroup_fail:
  "config_cgroup key val conf h = (Failure e, conf', h') \<Longrightarrow> conf' = conf"
  by (auto simp: config_cgroup_def Let_def split: option.splits prod.splits if_splits)

lemma fstab_fail:
  "config_fstab P key val conf h = (Failure e, conf', h') \<Longrightarrow> e \<noteq> AllocationFailure
     \<Longrightarrow> conf' = conf"
  by (auto simp: config_fstab_def split: option.splits prod.splits if_splits)

lemma mount_fail:
  "config_mount P key val conf h = (Failure e, conf', h') \<Longrightarrow> e \<noteq> AllocationFailure
     \<Longrightarrow> conf' = conf"
  by (auto simp: config_mount_def Let_def dest: fstab_fail split: option.splits prod.splits if_splits)

lemma rootfs_fail:
  "config_rootfs P key val conf h = (Failure e, conf', h') \<Longrightarrow> e \<noteq> AllocationFailure
     \<Longrightarrow> conf' = conf"
  by (auto simp: config_rootfs_def split: option.splits prod.splits if_splits)

lemma pivotdir_fail:
  "config_pivotdir P key val conf h = (Failure e, conf', h') \<Longrightarrow> e \<noteq> AllocationFailure
     \<Longrightarrow> conf' = conf"
  by (auto simp: config_pivotdir_def split: option.splits prod.splits if_splits)

lemma utsname_fail:
  "config_utsname P key val conf h = (Failure e, conf', h') \<Longrightarrow> conf' = conf"
  by (auto simp: config_utsname_def split: prod.splits if_splits)

lemma pts_no_fail: "config_pts P key val conf h \<noteq> (Failure e, conf', h')"
  by (simp add: config_pts_def)

lemma tty_no_fail: "config_tty P key val conf h \<noteq> (Failure e, conf', h')"
  by (simp add: config_tty_def)

lemma type_fail:
  "config_network_type key val conf h = (Failure e, conf', h') \<Longrightarrow>
     (e = AllocationFailure \<and> conf' = conf)
     \<or> (e = InvalidValue \<and> conf' = conf\<lparr>network := netdev_zero # network conf\<rparr>
         \<and> val \<notin> {''veth'', ''macvlan'', ''phys'', ''empty''})"
  by (auto simp: config_network_type_def Let_def lxc_list_add_def split: prod.splits if_splits)

lemma conf_network_same: "network conf = nw \<Longrightarrow> conf\<lparr>network := nw\<rparr> = conf"
  by auto

lemma flags_head:
  "network conf = d # ds \<Longrightarrow>
     \<exists>r d' h'. config_network_flags key val conf h = (r, conf\<lparr>network := d' # ds\<rparr>, h')"
  by (auto simp: config_network_flags_def network_netdev_Cons store_netdev_eq)

lemma link_head:
  "network conf = d # ds \<Longrightarrow>
     \<exists>r d' h'. config_network_link P key val conf h = (r, conf\<lparr>network := d' # ds\<rparr>, h')"
  by (cases "network_ifname P (link d) val h")
     (auto simp: config_network_link_def network_netdev_Cons store_netdev_eq)

lemma name_head:
  "network conf = d # ds \<Longrightarrow>
     \<exists>r d' h'. config_network_name P key val conf h = (r, conf\<lparr>network := d' # ds\<rparr>, h')"
  by (cases "network_ifname P (name d) val h")
     (auto simp: config_network_name_def network_netdev_Cons store_netdev_eq)

lemma hwaddr_head:
  "network conf = d # ds \<Longrightarrow>
     \<exists>r d' h'. config_network_hwaddr key val conf h = (r, conf\<lparr>network := d' # ds\<rparr>, h')"
  by (auto simp: config_network_hwaddr_def network_netdev_Cons store_netdev_eq
        split: prod.splits option.splits)

lemma mtu_head:
  "network conf = d # ds \<Longrightarrow>
     \<exists>r d' h'. config_network_mtu key val conf h = (r, conf\<lparr>network := d' # ds\<rparr>, h')"
  by (auto simp: config_network_mtu_def network_netdev_Cons store_netdev_eq
        split: prod.splits option.splits)

lemma ipv4_Success:
  assumes "config_network_ipv4 P key val conf h = (Success, conf', h')"
  shows "\<exists>d ds b. network conf = d # ds \<and> conf' = conf\<lparr>network := d\<lparr>ipv4 := b # ipv4 d\<rparr> # ds\<rparr>"
proof (cases "network conf")
  case Nil
  with assms show ?thesis by (simp add: config_network_ipv4_def network_netdev_Nil)
next
  case (Cons d ds)
  with assms show ?thesis
    by (auto simp: config_network_ipv4_def network_netdev_Cons store_netdev_eq Let_def
          lxc_list_add_def split: prod.splits if_splits option.splits)
qed

lemma ipv6_Success:
  assumes "config_network_ipv6 P key val conf h = (Success, conf', h')"
  shows "\<exists>d ds b. network conf = d # ds \<and> conf' = conf\<lparr>network := d\<lparr>ipv6 := b # ipv6 d\<rparr> # ds\<rparr>"
proof (cases "network conf")
  case Nil
  with assms show ?thesis by (simp add: config_network_ipv6_def network_netdev_Nil)
next
  case (Cons d ds)
  with assms show ?thesis
    by (auto simp: config_network_ipv6_def network_netdev_Cons store_netdev_eq Let_def
          lxc_list_add_def split: prod.splits if_splits option.splits)
qed

lemma type_Success:
  "config_network_type key val conf h = (Success, conf', h') \<Longrightarrow>
     \<exists>d. conf' = conf\<lparr>network := d # network conf\<rparr>"
  by (auto simp: config_network_type_def Let_def lxc_list_add_def split: prod.splits if_splits)

lemma ipv4_head:
  assumes "network conf = d # ds"
  shows "\<exists>r d' h'. config_network_ipv4 P key val conf h = (r, conf\<lparr>network := d' # ds\<rparr>, h')"
proof -
  obtain r c' h' where res: "config_network_ipv4 P key val conf h = (r, c', h')"
    by (cases "config_network_ipv4 P key val conf h") auto
  show ?thesis
  proof (cases r)
    case Success
    with res ipv4_Success [of P key val conf h c' h'] assms show ?thesis by auto
  next
    case (Failure e)
    with res have "c' = conf" by (auto dest: ipv4_fail)
    with res assms conf_network_same [of conf "d # ds"] show ?thesis by metis
  qed
qed

lemma ipv6_head:
  assumes "network conf = d # ds"
  shows "\<exists>r d' h'. config_network_ipv6 P key val conf h = (r, conf\<lparr>network := d' # ds\<rparr>, h')"
proof -
  obtain r c' h' where res: "config_network_ipv6 P key val conf h = (r, c', h')"
    by (cases "config_network_ipv6 P key val conf h") auto
  show ?thesis
  proof (cases r)
    case Success
    with res ipv6_Success [of P key val conf h c' h'] assms show ?thesis by auto
  next
    case (Failure e)
    with res have "c' = conf" by (auto dest: ipv6_fail)
    with res assms conf_network_same [of conf "d # ds"] show ?thesis by metis
  qed
qed

lemma type_on_name:
  assumes "malloc h = (True, h1)" "malloc h1 = (True, h2)"
  shows "config_network_type key ''veth'' conf h
           = (Success, conf\<lparr>network := netdev_zero\<lparr>type := Some VETH\<rparr> # network conf\<rparr>, h2)"
    and "config_network_type key ''macvlan'' conf h
           = (Success, conf\<lparr>network := netdev_zero\<lparr>type := Some MACVLAN\<rparr> # network conf\<rparr>, h2)"
    and "config_network_type key ''phys'' conf h
           = (Success, conf\<lparr>network := netdev_zero\<lparr>type := Some PHYS\<rparr> # network conf\<rparr>, h2)"
    and "config_network_type key ''empty'' conf h
           = (Success, conf\<lparr>network := netdev_zero\<lparr>type := Some EMPTY\<rparr> # network conf\<rparr>, h2)"
  using assms by (simp_all add: config_network_type_def lxc_list_add_def Let_def)

lemma left_gc_ltrim: "drop (lxc_char_left_gc s (length s)) s = spec_ltrim s"
  by (simp add: lxc_char_left_gc_def spec_ltrim_def dropWhile_eq_drop)

lemma right_gc_rtrim: "take (lxc_char_right_gc s (length s)) s = spec_rtrim s"
proof -
  have "rev s = takeWhile isspace (rev s) @ dropWhile isspace (rev s)"
    by simp
  then have "s = rev (dropWhile isspace (rev s)) @ rev (takeWhile isspace (rev s))"
    by (metis rev_append rev_rev_ident)
  then have "take (length (rev (dropWhile isspace (rev s)))) s = rev (dropWhile isspace (rev s))"
    by (metis append_eq_conv_conj)
  then show ?thesis
    by (simp add: lxc_char_right_gc_def spec_rtrim_def)
qed

lemma getconfig_from_None:
  "\<forall>c \<in> set cs. take (length (name_cfg c)) key \<noteq> name_cfg c \<Longrightarrow> getconfig_from cs key = None"
  by (induction cs) (auto simp: strncmp_eq_def)

lemma getconfig_from_Some:
  "getconfig_from cs key = Some c \<Longrightarrow> c \<in> set cs \<and> take (length (name_cfg c)) key = name_cfg c"
  by (induction cs) (auto simp: strncmp_eq_def split: if_splits)

lemma nat_bit_7: "(m :: nat) < 256 \<Longrightarrow> odd (m div 128) = (128 \<le> m)"
proof -
  assume "m < 256"
  then have "m div 128 < 2" by simp
  then have "m div 128 = 0 \<or> m div 128 = 1" by linarith
  moreover have "(m div 128 = 0) = (m < 128)" by arith
  ultimately show ?thesis by auto
qed

lemma nat_bit_6: "(m :: nat) < 256 \<Longrightarrow> 128 \<le> m \<Longrightarrow> odd (m div 64) = (192 \<le> m)"
proof -
  assume "m < 256" "128 \<le> m"
  then have "m div 64 < 4" "2 \<le> m div 64" by simp_all
  then have "m div 64 = 2 \<or> m div 64 = 3" by linarith
  moreover have "(m div 64 < 3) = (m < 192)" by arith
  ultimately show ?thesis by auto
qed

lemma nat_bit_5: "(m :: nat) < 256 \<Longrightarrow> 192 \<le> m \<Longrightarrow> odd (m div 32) = (224 \<le> m)"
proof -
  assume "m < 256" "192 \<le> m"
  then have "m div 32 < 8" "6 \<le> m div 32" by simp_all
  then have "m div 32 = 6 \<or> m div 32 = 7" by linarith
  moreover have "(m div 32 < 7) = (m < 224)" by arith
  ultimately show ?thesis by auto
qed


lemma octet_bits:
  fixes o1 :: "8 word"
  shows "(o1 < 128) = (\<not> bit o1 7)"
    and "(o1 < 192) = (\<not> (bit o1 7 \<and> bit o1 6))"
    and "(o1 < 224) = (\<not> (bit o1 7 \<and> bit o1 6 \<and> bit o1 5))"
proof -
  define m where "m = unat o1"
  have m: "m < 256"
    using unsigned_less [of o1, where 'a = nat] by (simp add: m_def)
  have bm: "bit o1 n = bit m n" for n
    by (simp add: m_def bit_unsigned_iff)
  have "bit m 7 = odd (m div 128)" "bit m 6 = odd (m div 64)" "bit m 5 = odd (m div 32)"
    by (simp_all add: bit_iff_odd)
  then have b: "bit o1 7 = odd (m div 128)" "bit o1 6 = odd (m div 64)"
    "bit o1 5 = odd (m div 32)"
    by (simp_all only: bm)
  have l: "(o1 < 128) = (m < 128)" "(o1 < 192) = (m < 192)" "(o1 < 224) = (m < 224)"
    by (simp_all add: m_def word_less_nat_alt)
  from m show "(o1 < 128) = (\<not> bit o1 7)"
    unfolding l b using nat_bit_7 [of m] by auto
  from m show "(o1 < 192) = (\<not> (bit o1 7 \<and> bit o1 6))"
    unfolding l b using nat_bit_7 [of m] nat_bit_6 [of m] by auto
  from m show "(o1 < 224) = (\<not> (bit o1 7 \<and> bit o1 6 \<and> bit o1 5))"
    unfolding l b using nat_bit_7 [of m] nat_bit_6 [of m] nat_bit_5 [of m] by auto
qed

lemma and_pow2: "(x :: 32 word) AND 2 ^ n = (if bit x n then 2 ^ n else 0)"
  by (rule bit_eqI) (auto simp: bit_simps)

lemma and_top_bits:
  fixes x :: "32 word"
  shows "x AND 0x80000000 = (if bit x 31 then 0x80000000 else 0)"
    and "x AND 0x40000000 = (if bit x 30 then 0x40000000 else 0)"
    and "x AND 0x20000000 = (if bit x 29 then 0x20000000 else 0)"
  using and_pow2 [of x 31] and_pow2 [of x 30] and_pow2 [of x 29] by simp_all

lemma IN_CLASSA_bit: "IN_CLASSA x = (\<not> bit x 31)"
  unfolding IN_CLASSA_def by (simp add: and_top_bits)

lemma IN_CLASSB_bit: "IN_CLASSB x = (bit x 31 \<and> \<not> bit x 30)"
proof -
  have "(0xc0000000 :: 32 word) = 0x80000000 OR 0x40000000" by simp
  then have "x AND 0xc0000000 = (x AND 0x80000000) OR (x AND 0x40000000)"
    by (simp only: bit.conj_disj_distrib)
  then show ?thesis
    unfolding IN_CLASSB_def by (simp add: and_top_bits)
qed

lemma IN_CLASSC_bit: "IN_CLASSC x = (bit x 31 \<and> bit x 30 \<and> \<not> bit x 29)"
proof -
  have "(0xe0000000 :: 32 word) = 0x80000000 OR 0x40000000 OR 0x20000000" by simp
  then have "x AND 0xe0000000 = (x AND 0x80000000) OR (x AND 0x40000000) OR (x AND 0x20000000)"
    by (simp only: bit.conj_disj_distrib)
  then show ?thesis
    unfolding IN_CLASSC_def by (simp add: and_top_bits)
qed

lemma s_addr_top_bits:
  "bit (s_addr BigEndian (In_addr a b c d)) 31 = bit a 7"
  "bit (s_addr BigEndian (In_addr a b c d)) 30 = bit a 6"
  "bit (s_addr BigEndian (In_addr a b c d)) 29 = bit a 5"
  "bit (s_addr LittleEndian (In_addr a b c d)) 31 = bit d 7"
  "bit (s_addr LittleEndian (In_addr a b c d)) 30 = bit d 6"
  "bit (s_addr LittleEndian (In_addr a b c d)) 29 = bit d 5"
  by (auto simp: bit_simps dest: bit_imp_le_length)

subsection \<open>The prefix length of an address without prefix\<close>

text \<open>
  \<open>config_ip_prefix\<close> hands \<open>s_addr\<close>, which \<open>inet_pton\<close> has stored in network
  byte order, to the class tests of \<open><netinet/in.h>\<close>, which expect host byte
  order. On a big-endian host the two agree and the prefix length is that of the class
  of the address. On a little-endian host the tests see the octets in reverse, and
  the prefix length is that of the class the last octet would have as a first octet.
\<close>

lemma config_ip_prefix_big_endian:
  "byte_order P = BigEndian \<Longrightarrow> config_ip_prefix P (In_addr a b c d) = spec_classful_prefix a"
  by (simp add: config_ip_prefix_def spec_classful_prefix_def IN_CLASSA_bit IN_CLASSB_bit
        IN_CLASSC_bit s_addr_top_bits octet_bits IN_CLASSA_NSHIFT_def IN_CLASSB_NSHIFT_def
        IN_CLASSC_NSHIFT_def del: s_addr.simps)

lemma config_ip_prefix_little_endian:
  "byte_order P = LittleEndian \<Longrightarrow> config_ip_prefix P (In_addr a b c d) = spec_classful_prefix d"
  by (simp add: config_ip_prefix_def spec_classful_prefix_def IN_CLASSA_bit IN_CLASSB_bit
        IN_CLASSC_bit s_addr_top_bits octet_bits IN_CLASSA_NSHIFT_def IN_CLASSB_NSHIFT_def
        IN_CLASSC_NSHIFT_def del: s_addr.simps)

text \<open>
  Claim C1 says that an address without explicit prefix gets the prefix length of
  its class: 8 for 10.0.0.5, 16 for 172.16.0.5, 24 for 192.168.0.5. On the
  little-endian host the lines \<open>lxc.network.ipv4 = 172.16.0.5\<close> and
  \<open>lxc.network.ipv4 = 192.168.0.5\<close> both store the prefix length 8, as the last
  octet 5 is below 128.
\<close>

theorem prefix_from_last_octet_on_little_endian:
  "parse_line linux_le ''lxc.network.ipv4 = 172.16.0.5''
      (lxc_conf_init\<lparr>network := [netdev_zero]\<rparr>) []
     = (Success,
        lxc_conf_init\<lparr>network :=
          [netdev_zero\<lparr>ipv4 :=
             [\<lparr>addr = In_addr 172 16 0 5, bcast = in_addr_zero, prefix = 8\<rparr>]\<rparr>]\<rparr>,
        [])
   \<and> spec_classful_prefix 172 = 16
   \<and> parse_line linux_le ''lxc.network.ipv4 = 192.168.0.5''
      (lxc_conf_init\<lparr>network := [netdev_zero]\<rparr>) []
     = (Success,
        lxc_conf_init\<lparr>network :=
          [netdev_zero\<lparr>ipv4 :=
             [\<lparr>addr = In_addr 192 168 0 5, bcast = in_addr_zero, prefix = 8\<rparr>]\<rparr>]\<rparr>,
        [])
   \<and> spec_classful_prefix 192 = 24"
  by code_simp

subsection \<open>Failing handlers\<close>

text \<open>
  Claim C2 says that a handler that fails leaves the configuration as it was. The
  handler of \<open>lxc.network.type\<close> does not: it links the new device before it looks
  at the value, so the line \<open>lxc.network.type = bogus\<close> fails and leaves a device
  of no type at the head of the device list.
\<close>

theorem failing_type_modifies_conf:
  "parse_line linux_le ''lxc.network.type = bogus'' lxc_conf_init []
     = (Failure InvalidValue, lxc_conf_init\<lparr>network := [netdev_zero]\<rparr>, [])
   \<and> network (lxc_conf_init\<lparr>network := [netdev_zero]\<rparr>) \<noteq> network lxc_conf_init"
  by code_simp

text \<open>
  A handler that copies the value stores the result of \<open>strdup\<close> before it tests
  it. When the copy fails the field is left cleared: the hardware address a device
  had is gone after a failing \<open>lxc.network.hwaddr\<close>.
\<close>

lemma failing_strdup_clears_field:
  "config_network_hwaddr ''lxc.network.hwaddr'' ''00:16:3e:00:00:02''
      (lxc_conf_init\<lparr>network := [netdev_zero\<lparr>hwaddr := Some ''00:16:3e:00:00:01''\<rparr>]\<rparr>)
      [False]
     = (Failure AllocationFailure, lxc_conf_init\<lparr>network := [netdev_zero]\<rparr>, [])"
  by (simp add: config_network_hwaddr_def network_netdev_Cons store_netdev_def strdup_def
        netdev_zero_def)

text \<open>
  Claim C2, amended. For every entry of the table and every input on which its handler
  fails: a handler other than that of \<open>lxc.network.type\<close> that fails for another
  reason than a failed allocation leaves the configuration as it was, and the
  handlers of \<open>lxc.cgroup\<close>, \<open>lxc.utsname\<close>, \<open>lxc.network.flags\<close>,
  \<open>lxc.network.ipv4\<close> and \<open>lxc.network.ipv6\<close> do so on every failure. The
  handler of \<open>lxc.network.type\<close> leaves the configuration as it was when an
  allocation fails; otherwise it fails with \<open>InvalidValue\<close> on a value that is none
  of the four type names, and leaves the configuration with a new zeroed device before
  the devices it had, nothing else changed.
\<close>

theorem failing_handler_leaves_conf:
  assumes "c \<in> set (config P)" and "cb c key val conf h = (Failure e, conf', h')"
  shows "(name_cfg c \<noteq> ''lxc.network.type'' \<and> e \<noteq> AllocationFailure \<longrightarrow> conf' = conf)
       \<and> (name_cfg c \<in> {''lxc.cgroup'', ''lxc.utsname'', ''lxc.network.flags'',
                          ''lxc.network.ipv4'', ''lxc.network.ipv6''} \<longrightarrow> conf' = conf)
       \<and> (name_cfg c = ''lxc.network.type'' \<longrightarrow>
             (e = AllocationFailure \<and> conf' = conf)
           \<or> (e = InvalidValue \<and> conf' = conf\<lparr>network := netdev_zero # network conf\<rparr>
               \<and> val \<notin> {''veth'', ''macvlan'', ''phys'', ''empty''}))"
  using assms unfolding config_def
  by (auto simp: pts_no_fail tty_no_fail
       dest: cgroup_fail mount_fail rootfs_fail utsname_fail type_fail pivotdir_fail flags_fail
             link_fail name_fail hwaddr_fail mtu_fail ipv4_fail ipv6_fail)

theorem failing_handler_leaves_conf_witness:
  "\<lparr>name_cfg = ''lxc.network.link'', cb = config_network_link linux_le\<rparr> \<in> set (config linux_le)
   \<and> config_network_link linux_le ''lxc.network.link'' ''eth0'' lxc_conf_init []
       = (Failure MissingContext, lxc_conf_init, [])
   \<and> \<lparr>name_cfg = ''lxc.network.type'', cb = config_network_type\<rparr> \<in> set (config linux_le)
   \<and> config_network_type ''lxc.network.type'' ''bogus'' lxc_conf_init []
       = (Failure InvalidValue, lxc_conf_init\<lparr>network := [netdev_zero]\<rparr>, [])"
proof -
  have m1: "\<lparr>name_cfg = ''lxc.network.link'', cb = config_network_link linux_le\<rparr>
              \<in> set (config linux_le)"
    by (simp add: config_def)
  have m2: "\<lparr>name_cfg = ''lxc.network.type'', cb = config_network_type\<rparr> \<in> set (config linux_le)"
    by (simp add: config_def)
  obtain e c' h' where f1: "config_network_link linux_le ''lxc.network.link'' ''eth0'' lxc_conf_init []
       = (Failure e, c', h')" and e: "e = MissingContext" and h: "h' = []"
    by (simp add: config_network_link_def network_netdev_Nil lxc_conf_init_def)
  from failing_handler_leaves_conf [OF m1, of "''lxc.network.link''" "''eth0''" lxc_conf_init "[]" e c' h']
    f1 e
  have "c' = lxc_conf_init" by simp
  with f1 e h have l: "config_network_link linux_le ''lxc.network.link'' ''eth0'' lxc_conf_init []
       = (Failure MissingContext, lxc_conf_init, [])" by simp
  obtain e2 c2 h2 where f2: "config_network_type ''lxc.network.type'' ''bogus'' lxc_conf_init []
       = (Failure e2, c2, h2)" and h2: "h2 = []"
    by (simp add: config_network_type_def)
  from failing_handler_leaves_conf [OF m2, of "''lxc.network.type''" "''bogus''" lxc_conf_init "[]" e2 c2 h2]
    f2
  have "e2 = AllocationFailure \<and> c2 = lxc_conf_init
      \<or> e2 = InvalidValue \<and> c2 = lxc_conf_init\<lparr>network := netdev_zero # network lxc_conf_init\<rparr>"
    by simp
  moreover from f2 have "e2 \<noteq> AllocationFailure"
    by (auto simp: config_network_type_def)
  ultimately have "e2 = InvalidValue" "c2 = lxc_conf_init\<lparr>network := [netdev_zero]\<rparr>"
    by (auto simp: lxc_conf_init_def)
  with f2 h2 have t: "config_network_type ''lxc.network.type'' ''bogus'' lxc_conf_init []
       = (Failure InvalidValue, lxc_conf_init\<lparr>network := [netdev_zero]\<rparr>, [])" by simp
  from m1 l m2 t show ?thesis by simp
qed

subsection \<open>The order of the lists\<close>

text \<open>
  Claim C3 says that the addresses of a device are stored in the order of their
  declaration. The handlers of \<open>lxc.network.ipv4\<close> and \<open>lxc.network.ipv6\<close> link
  a new address with \<open>lxc_list_add\<close>, as the handler of \<open>lxc.network.type\<close>
  links a new device, and not with \<open>lxc_list_add_tail\<close>: the address declared last
  comes first.
\<close>

theorem bindings_stored_newest_first:
  "lxc_config_read linux_le
     [''lxc.network.type = veth'', ''lxc.network.ipv4 = 10.0.0.1'', ''lxc.network.ipv4 = 10.0.0.2'',
      ''lxc.network.ipv6 = fe80::1'', ''lxc.network.ipv6 = fe80::2'']
     lxc_conf_init []
   = (Success,
      lxc_conf_init\<lparr>network :=
        [netdev_zero\<lparr>type := Some VETH,
           ipv4 := [\<lparr>addr = In_addr 10 0 0 2, bcast = in_addr_zero, prefix = 8\<rparr>,
                    \<lparr>addr = In_addr 10 0 0 1, bcast = in_addr_zero, prefix = 8\<rparr>],
           ipv6 := [\<lparr>addr6 = [0xfe, 0x80, 0, 0, 0, 0, 0, 0, 0, 0, 0, 0, 0, 0, 0, 2], prefix6 = 64\<rparr>,
                    \<lparr>addr6 = [0xfe, 0x80, 0, 0, 0, 0, 0, 0, 0, 0, 0, 0, 0, 0, 0, 1], prefix6 = 64\<rparr>]\<rparr>]\<rparr>,
      [])"
  by code_simp

text \<open>
  Claim C3, amended. A successful \<open>lxc.network.type\<close> puts its new device before the
  devices declared so far, and a successful \<open>lxc.network.ipv4\<close>
  (\<open>lxc.network.ipv6\<close>) puts its new address before the IPv4 (IPv6) addresses the
  current device has so far: the three lists hold the newest element first, the
  reverse of the order of declaration. Nothing else in the configuration changes.
\<close>

theorem binding_lists_prepend:
  "(config_network_type key val conf h = (Success, conf', h') \<longrightarrow>
      (\<exists>d. conf' = conf\<lparr>network := d # network conf\<rparr>))
   \<and> (config_network_ipv4 P key val conf h = (Success, conf', h') \<longrightarrow>
      (\<exists>d ds b. network conf = d # ds
         \<and> conf' = conf\<lparr>network := d\<lparr>ipv4 := b # ipv4 d\<rparr> # ds\<rparr>))
   \<and> (config_network_ipv6 P key val conf h = (Success, conf', h') \<longrightarrow>
      (\<exists>d ds b. network conf = d # ds
         \<and> conf' = conf\<lparr>network := d\<lparr>ipv6 := b # ipv6 d\<rparr> # ds\<rparr>))"
  using type_Success [of key val conf h conf' h'] ipv4_Success [of P key val conf h conf' h']
    ipv6_Success [of P key val conf h conf' h']
  by blast

theorem binding_lists_prepend_witness:
  "config_network_ipv4 linux_le ''lxc.network.ipv4'' ''10.0.0.2''
      (lxc_conf_init\<lparr>network :=
         [netdev_zero\<lparr>ipv4 := [\<lparr>addr = In_addr 10 0 0 1, bcast = in_addr_zero, prefix = 8\<rparr>]\<rparr>]\<rparr>) []
     = (Success,
        lxc_conf_init\<lparr>network :=
          [netdev_zero\<lparr>ipv4 := [\<lparr>addr = In_addr 10 0 0 2, bcast = in_addr_zero, prefix = 8\<rparr>,
                                 \<lparr>addr = In_addr 10 0 0 1, bcast = in_addr_zero, prefix = 8\<rparr>]\<rparr>]\<rparr>,
        [])
   \<and> (\<exists>d ds b.
         network (lxc_conf_init\<lparr>network :=
           [netdev_zero\<lparr>ipv4 := [\<lparr>addr = In_addr 10 0 0 1, bcast = in_addr_zero, prefix = 8\<rparr>]\<rparr>]\<rparr>)
           = d # ds
       \<and> lxc_conf_init\<lparr>network :=
          [netdev_zero\<lparr>ipv4 := [\<lparr>addr = In_addr 10 0 0 2, bcast = in_addr_zero, prefix = 8\<rparr>,
                                 \<lparr>addr = In_addr 10 0 0 1, bcast = in_addr_zero, prefix = 8\<rparr>]\<rparr>]\<rparr>
          = lxc_conf_init\<lparr>network :=
           [netdev_zero\<lparr>ipv4 := [\<lparr>addr = In_addr 10 0 0 1, bcast = in_addr_zero, prefix = 8\<rparr>]\<rparr>]\<rparr>
              \<lparr>network := d\<lparr>ipv4 := b # ipv4 d\<rparr> # ds\<rparr>)"
proof -
  have ev: "config_network_ipv4 linux_le ''lxc.network.ipv4'' ''10.0.0.2''
      (lxc_conf_init\<lparr>network :=
         [netdev_zero\<lparr>ipv4 := [\<lparr>addr = In_addr 10 0 0 1, bcast = in_addr_zero, prefix = 8\<rparr>]\<rparr>]\<rparr>) []
     = (Success,
        lxc_conf_init\<lparr>network :=
          [netdev_zero\<lparr>ipv4 := [\<lparr>addr = In_addr 10 0 0 2, bcast = in_addr_zero, prefix = 8\<rparr>,
                                 \<lparr>addr = In_addr 10 0 0 1, bcast = in_addr_zero, prefix = 8\<rparr>]\<rparr>]\<rparr>,
        [])"
    by code_simp
  from binding_lists_prepend [of "''lxc.network.ipv4''" "''10.0.0.2''" _ "[]" _ "[]" linux_le] ev
  show ?thesis by blast
qed

subsection \<open>The current device\<close>

text \<open>
  Claim C4. The handlers of the seven device fields (flags, link, name, hwaddr, mtu,
  ipv4, ipv6) work on the most recently declared device, the first of the device list.
  With no device declared they fail with \<open>MissingContext\<close> and leave the
  configuration as it was. Otherwise nothing but the first device can differ
  afterwards, whatever the result; right after a successful \<open>lxc.network.type\<close> the
  device it declared is that first device. With a first device \<open>d\<close> and the
  allocations succeeding, each handler writes its field of \<open>d\<close>: flags ORs
  \<open>IFF_UP\<close> into its flags; link and name store the value, unless it is longer than
  \<open>IFNAMSIZ\<close>, which fails with \<open>InvalidValue\<close> and changes nothing; hwaddr and mtu
  store the value; ipv4 and ipv6 put the binding they read from the value before the
  bindings \<open>d\<close> has, unless \<open>inet_pton\<close> rejects an address, which fails with
  \<open>InvalidAddress\<close> and changes nothing. After \<open>type = veth\<close>, then
  \<open>type = macvlan\<close>, the directive \<open>link = eth0\<close> sets the link of the macvlan
  device and leaves the veth device, and the devices declared before, as they were.
\<close>

theorem device_fields_current_device:
  assumes "c \<in> set (config P)"
    and "name_cfg c \<in> {''lxc.network.flags'', ''lxc.network.link'', ''lxc.network.name'',
           ''lxc.network.hwaddr'', ''lxc.network.mtu'', ''lxc.network.ipv4'', ''lxc.network.ipv6''}"
  shows "(network conf = [] \<longrightarrow> cb c key val conf h = (Failure MissingContext, conf, h))
       \<and> (network conf = d # ds \<longrightarrow>
            (\<exists>r d' h'. cb c key val conf h = (r, conf\<lparr>network := d' # ds\<rparr>, h')))
       \<and> (config_network_type key' val' conf h = (Success, conf1, h1) \<longrightarrow>
            (\<exists>d0. network conf1 = d0 # network conf
               \<and> (\<exists>r d' h'. cb c key val conf1 h1 = (r, conf\<lparr>network := d' # network conf\<rparr>, h'))))
       \<and> (network conf = d # ds \<longrightarrow>
            config_network_flags key val conf h
              = (Success, conf\<lparr>network := d\<lparr>flags := flags d OR IFF_UP\<rparr> # ds\<rparr>, h))
       \<and> (network conf = d # ds \<and> malloc h = (True, ha) \<longrightarrow>
              config_network_link P key val conf h
                = (if length val > IFNAMSIZ P then (Failure InvalidValue, conf, h)
                   else (Success, conf\<lparr>network := d\<lparr>link := Some val\<rparr> # ds\<rparr>, ha))
            \<and> config_network_name P key val conf h
                = (if length val > IFNAMSIZ P then (Failure InvalidValue, conf, h)
                   else (Success, conf\<lparr>network := d\<lparr>name := Some val\<rparr> # ds\<rparr>, ha))
            \<and> config_network_hwaddr key val conf h
                = (Success, conf\<lparr>network := d\<lparr>hwaddr := Some val\<rparr> # ds\<rparr>, ha)
            \<and> config_network_mtu key val conf h
                = (Success, conf\<lparr>network := d\<lparr>mtu := Some val\<rparr> # ds\<rparr>, ha))
       \<and> (network conf = d # ds \<and> malloc h = (True, ha) \<and> malloc ha = (True, hb) \<longrightarrow>
              config_network_ipv4 P key val conf h
                = (case split_at val '' '' of (addr0, bcast_s) \<Rightarrow>
                  (case split_at addr0 ''/'' of (addr_s, prefix_s) \<Rightarrow>
                  (case inet_pton4 addr_s of
                     None \<Rightarrow> (Failure InvalidAddress, conf, hb)
                   | Some a \<Rightarrow>
                     (case (case bcast_s of None \<Rightarrow> Some in_addr_zero | Some b \<Rightarrow> inet_pton4 b) of
                        None \<Rightarrow> (Failure InvalidAddress, conf, hb)
                      | Some b \<Rightarrow>
                          (Success,
                           conf\<lparr>network :=
                             d\<lparr>ipv4 :=
                                 \<lparr>addr = a, bcast = b,
                                  prefix = (case prefix_s of
                                              Some p \<Rightarrow> atoi P p
                                            | None \<Rightarrow> config_ip_prefix P a)\<rparr> # ipv4 d\<rparr> # ds\<rparr>,
                           hb)))))
            \<and> config_network_ipv6 P key val conf h
                = (case split_at val ''/'' of (addr_s, netmask) \<Rightarrow>
                  (case inet_pton6 addr_s of
                     None \<Rightarrow> (Failure InvalidAddress, conf, hb)
                   | Some a \<Rightarrow>
                       (Success,
                        conf\<lparr>network :=
                          d\<lparr>ipv6 :=
                              \<lparr>addr6 = a,
                               prefix6 = (case netmask of None \<Rightarrow> 64 | Some m \<Rightarrow> atoi P m)\<rparr>
                              # ipv6 d\<rparr> # ds\<rparr>,
                        hb))))
       \<and> (malloc h = (True, ha) \<and> malloc ha = (True, hb) \<and> malloc hb = (True, hc)
            \<and> malloc hc = (True, he) \<and> malloc he = (True, hf) \<and> 4 \<le> IFNAMSIZ P \<longrightarrow>
            (\<exists>c1 c2.
               config_network_type key ''veth'' conf h = (Success, c1, hb)
             \<and> config_network_type key ''macvlan'' c1 hb = (Success, c2, he)
             \<and> config_network_link P key ''eth0'' c2 he
                 = (Success,
                    conf\<lparr>network := netdev_zero\<lparr>type := Some MACVLAN, link := Some ''eth0''\<rparr>
                                      # netdev_zero\<lparr>type := Some VETH\<rparr> # network conf\<rparr>,
                    hf)))"
proof -
  have a: "network conf = [] \<longrightarrow> cb c key val conf h = (Failure MissingContext, conf, h)"
    using assms unfolding config_def
    by (auto simp: network_netdev_Nil config_network_flags_def config_network_link_def
          config_network_name_def config_network_hwaddr_def config_network_mtu_def
          config_network_ipv4_def config_network_ipv6_def)
  have b: "\<exists>r d' h'. cb c key val cf hh = (r, cf\<lparr>network := d' # ds'\<rparr>, h')"
    if "network cf = dd # ds'" for cf hh dd ds'
    using assms that flags_head [OF that] link_head [OF that] name_head [OF that]
      hwaddr_head [OF that] mtu_head [OF that] ipv4_head [OF that] ipv6_head [OF that]
    unfolding config_def by auto
  have c: "\<exists>d0. network conf1 = d0 # network conf
               \<and> (\<exists>r d' h'. cb c key val conf1 h1 = (r, conf\<lparr>network := d' # network conf\<rparr>, h'))"
    if t: "config_network_type key' val' conf h = (Success, conf1, h1)"
  proof -
    from type_Success [OF t] obtain d0 where d0: "conf1 = conf\<lparr>network := d0 # network conf\<rparr>"
      by blast
    then have n: "network conf1 = d0 # network conf" by simp
    from b [OF n, of h1] d0 n show ?thesis by auto
  qed
  have f: "config_network_flags key val conf h
              = (Success, conf\<lparr>network := d\<lparr>flags := flags d OR IFF_UP\<rparr> # ds\<rparr>, h)"
    if "network conf = d # ds"
    using that by (simp add: config_network_flags_def network_netdev_Cons store_netdev_eq)
  have s: "config_network_link P key val conf h
                = (if length val > IFNAMSIZ P then (Failure InvalidValue, conf, h)
                   else (Success, conf\<lparr>network := d\<lparr>link := Some val\<rparr> # ds\<rparr>, ha))"
      "config_network_name P key val conf h
                = (if length val > IFNAMSIZ P then (Failure InvalidValue, conf, h)
                   else (Success, conf\<lparr>network := d\<lparr>name := Some val\<rparr> # ds\<rparr>, ha))"
      "config_network_hwaddr key val conf h
                = (Success, conf\<lparr>network := d\<lparr>hwaddr := Some val\<rparr> # ds\<rparr>, ha)"
      "config_network_mtu key val conf h
                = (Success, conf\<lparr>network := d\<lparr>mtu := Some val\<rparr> # ds\<rparr>, ha)"
    if "network conf = d # ds" "malloc h = (True, ha)"
    using that
    by (simp_all add: config_network_link_def config_network_name_def config_network_hwaddr_def
          config_network_mtu_def network_ifname_def strdup_def network_netdev_Cons
          store_netdev_eq store_netdev_same)
  have i4: "config_network_ipv4 P key val conf h
                = (case split_at val '' '' of (addr0, bcast_s) \<Rightarrow>
                  (case split_at addr0 ''/'' of (addr_s, prefix_s) \<Rightarrow>
                  (case inet_pton4 addr_s of
                     None \<Rightarrow> (Failure InvalidAddress, conf, hb)
                   | Some a \<Rightarrow>
                     (case (case bcast_s of None \<Rightarrow> Some in_addr_zero | Some b \<Rightarrow> inet_pton4 b) of
                        None \<Rightarrow> (Failure InvalidAddress, conf, hb)
                      | Some b \<Rightarrow>
                          (Success,
                           conf\<lparr>network :=
                             d\<lparr>ipv4 :=
                                 \<lparr>addr = a, bcast = b,
                                  prefix = (case prefix_s of
                                              Some p \<Rightarrow> atoi P p
                                            | None \<Rightarrow> config_ip_prefix P a)\<rparr> # ipv4 d\<rparr> # ds\<rparr>,
                           hb)))))"
    if "network conf = d # ds" "malloc h = (True, ha)" "malloc ha = (True, hb)"
    using that
    by (simp add: config_network_ipv4_def network_netdev_Cons store_netdev_eq lxc_list_add_def
          inetdev_zero_def Let_def split: prod.splits option.splits)
  have i6: "config_network_ipv6 P key val conf h
                = (case split_at val ''/'' of (addr_s, netmask) \<Rightarrow>
                  (case inet_pton6 addr_s of
                     None \<Rightarrow> (Failure InvalidAddress, conf, hb)
                   | Some a \<Rightarrow>
                       (Success,
                        conf\<lparr>network :=
                          d\<lparr>ipv6 :=
                              \<lparr>addr6 = a,
                               prefix6 = (case netmask of None \<Rightarrow> 64 | Some m \<Rightarrow> atoi P m)\<rparr>
                              # ipv6 d\<rparr> # ds\<rparr>,
                        hb)))"
    if "network conf = d # ds" "malloc h = (True, ha)" "malloc ha = (True, hb)"
    using that
    by (simp add: config_network_ipv6_def network_netdev_Cons store_netdev_eq lxc_list_add_def
          inet6dev_zero_def Let_def split: prod.splits option.splits)
  have e: "\<exists>c1 c2.
               config_network_type key ''veth'' conf h = (Success, c1, hb)
             \<and> config_network_type key ''macvlan'' c1 hb = (Success, c2, he)
             \<and> config_network_link P key ''eth0'' c2 he
                 = (Success,
                    conf\<lparr>network := netdev_zero\<lparr>type := Some MACVLAN, link := Some ''eth0''\<rparr>
                                      # netdev_zero\<lparr>type := Some VETH\<rparr> # network conf\<rparr>,
                    hf)"
    if m: "malloc h = (True, ha)" "malloc ha = (True, hb)" "malloc hb = (True, hc)"
      "malloc hc = (True, he)" "malloc he = (True, hf)" and n: "4 \<le> IFNAMSIZ P"
  proof -
    let ?c1 = "conf\<lparr>network := netdev_zero\<lparr>type := Some VETH\<rparr> # network conf\<rparr>"
    let ?c2 = "?c1\<lparr>network := netdev_zero\<lparr>type := Some MACVLAN\<rparr> # network ?c1\<rparr>"
    have t1: "config_network_type key ''veth'' conf h = (Success, ?c1, hb)"
      using m(1,2) by (rule type_on_name)
    have t2: "config_network_type key ''macvlan'' ?c1 hb = (Success, ?c2, he)"
      using m(3,4) by (rule type_on_name)
    have "config_network_link P key ''eth0'' ?c2 he
            = (Success,
               conf\<lparr>network := netdev_zero\<lparr>type := Some MACVLAN, link := Some ''eth0''\<rparr>
                                 # netdev_zero\<lparr>type := Some VETH\<rparr> # network conf\<rparr>,
               hf)"
      using m(5) n
      by (simp add: config_network_link_def network_ifname_def strdup_def network_netdev_Cons
            store_netdev_def)
    with t1 t2 show ?thesis by blast
  qed
  from a b c f s i4 i6 e show ?thesis by blast
qed


theorem device_fields_current_device_witness:
  "\<lparr>name_cfg = ''lxc.network.link'', cb = config_network_link linux_le\<rparr> \<in> set (config linux_le)
   \<and> network lxc_conf_init = []
   \<and> config_network_link linux_le ''lxc.network.link'' ''eth0'' lxc_conf_init []
       = (Failure MissingContext, lxc_conf_init, [])
   \<and> malloc [] = (True, [])
   \<and> network (lxc_conf_init\<lparr>network := [netdev_zero\<lparr>type := Some MACVLAN\<rparr>,
                                           netdev_zero\<lparr>type := Some VETH\<rparr>]\<rparr>)
       = netdev_zero\<lparr>type := Some MACVLAN\<rparr> # [netdev_zero\<lparr>type := Some VETH\<rparr>]
   \<and> config_network_hwaddr ''lxc.network.hwaddr'' ''00:16:3e:00:00:01''
         (lxc_conf_init\<lparr>network := [netdev_zero\<lparr>type := Some MACVLAN\<rparr>,
                                    netdev_zero\<lparr>type := Some VETH\<rparr>]\<rparr>) []
       = (Success,
          lxc_conf_init\<lparr>network :=
            [netdev_zero\<lparr>type := Some MACVLAN, hwaddr := Some ''00:16:3e:00:00:01''\<rparr>,
             netdev_zero\<lparr>type := Some VETH\<rparr>]\<rparr>,
          [])
   \<and> config_network_mtu ''lxc.network.mtu'' ''1500''
         (lxc_conf_init\<lparr>network := [netdev_zero\<lparr>type := Some MACVLAN\<rparr>,
                                    netdev_zero\<lparr>type := Some VETH\<rparr>]\<rparr>) []
       = (Success,
          lxc_conf_init\<lparr>network :=
            [netdev_zero\<lparr>type := Some MACVLAN, mtu := Some ''1500''\<rparr>,
             netdev_zero\<lparr>type := Some VETH\<rparr>]\<rparr>,
          [])
   \<and> lxc_config_read linux_le
         [''lxc.network.type = veth'', ''lxc.network.type = macvlan'', ''lxc.network.link = eth0'']
         lxc_conf_init []
       = (Success,
          lxc_conf_init\<lparr>network := [netdev_zero\<lparr>type := Some MACVLAN, link := Some ''eth0''\<rparr>,
                                    netdev_zero\<lparr>type := Some VETH\<rparr>]\<rparr>,
          [])
   \<and> lxc_config_read linux_le
         [''lxc.network.type = veth'', ''lxc.network.type = macvlan'',
          ''lxc.network.flags = up'', ''lxc.network.link = eth0'', ''lxc.network.name = eth1'',
          ''lxc.network.hwaddr = 00:16:3e:00:00:01'', ''lxc.network.mtu = 1500'',
          ''lxc.network.ipv4 = 10.0.0.5/24'', ''lxc.network.ipv6 = fe80::1/10'']
         lxc_conf_init []
       = (Success,
          lxc_conf_init\<lparr>network :=
            [\<lparr>type = Some MACVLAN, flags = 1, link = Some ''eth0'', name = Some ''eth1'',
              hwaddr = Some ''00:16:3e:00:00:01'', mtu = Some ''1500'',
              ipv4 = [\<lparr>addr = In_addr 10 0 0 5, bcast = in_addr_zero, prefix = 24\<rparr>],
              ipv6 = [\<lparr>addr6 = [0xfe, 0x80, 0, 0, 0, 0, 0, 0, 0, 0, 0, 0, 0, 0, 0, 1],
                       prefix6 = 10\<rparr>]\<rparr>,
             netdev_zero\<lparr>type := Some VETH\<rparr>]\<rparr>,
          [])"
proof -
  let ?c = "\<lparr>name_cfg = ''lxc.network.link'', cb = config_network_link linux_le\<rparr>"
  let ?two = "lxc_conf_init\<lparr>network := [netdev_zero\<lparr>type := Some MACVLAN\<rparr>,
                                          netdev_zero\<lparr>type := Some VETH\<rparr>]\<rparr>"
  have m: "?c \<in> set (config linux_le)"
    by (simp add: config_def)
  have k: "name_cfg ?c \<in> {''lxc.network.flags'', ''lxc.network.link'', ''lxc.network.name'',
           ''lxc.network.hwaddr'', ''lxc.network.mtu'', ''lxc.network.ipv4'', ''lxc.network.ipv6''}"
    by simp
  have n: "network lxc_conf_init = []"
    by (simp add: lxc_conf_init_def)
  have mem: "malloc [] = (True, [])"
    by simp
  have two: "network ?two = netdev_zero\<lparr>type := Some MACVLAN\<rparr> # [netdev_zero\<lparr>type := Some VETH\<rparr>]"
    by simp
  from device_fields_current_device [OF m k, where conf = lxc_conf_init
         and key = "''lxc.network.link''" and val = "''eth0''" and h = "[]"] n
  have l: "config_network_link linux_le ''lxc.network.link'' ''eth0'' lxc_conf_init []
       = (Failure MissingContext, lxc_conf_init, [])"
    by simp
  from device_fields_current_device [OF m k, where conf = ?two
         and d = "netdev_zero\<lparr>type := Some MACVLAN\<rparr>"
         and ds = "[netdev_zero\<lparr>type := Some VETH\<rparr>]" and h = "[]" and ha = "[]"
         and key = "''lxc.network.hwaddr''" and val = "''00:16:3e:00:00:01''"] two mem
  have hw: "config_network_hwaddr ''lxc.network.hwaddr'' ''00:16:3e:00:00:01'' ?two []
       = (Success,
          lxc_conf_init\<lparr>network :=
            [netdev_zero\<lparr>type := Some MACVLAN, hwaddr := Some ''00:16:3e:00:00:01''\<rparr>,
             netdev_zero\<lparr>type := Some VETH\<rparr>]\<rparr>,
          [])"
    by simp
  from device_fields_current_device [OF m k, where conf = ?two
         and d = "netdev_zero\<lparr>type := Some MACVLAN\<rparr>"
         and ds = "[netdev_zero\<lparr>type := Some VETH\<rparr>]" and h = "[]" and ha = "[]"
         and key = "''lxc.network.mtu''" and val = "''1500''"] two mem
  have mt: "config_network_mtu ''lxc.network.mtu'' ''1500'' ?two []
       = (Success,
          lxc_conf_init\<lparr>network :=
            [netdev_zero\<lparr>type := Some MACVLAN, mtu := Some ''1500''\<rparr>,
             netdev_zero\<lparr>type := Some VETH\<rparr>]\<rparr>,
          [])"
    by simp
  have r: "lxc_config_read linux_le
         [''lxc.network.type = veth'', ''lxc.network.type = macvlan'', ''lxc.network.link = eth0'']
         lxc_conf_init []
       = (Success,
          lxc_conf_init\<lparr>network := [netdev_zero\<lparr>type := Some MACVLAN, link := Some ''eth0''\<rparr>,
                                    netdev_zero\<lparr>type := Some VETH\<rparr>]\<rparr>,
          [])"
    by code_simp
  have r2: "lxc_config_read linux_le
         [''lxc.network.type = veth'', ''lxc.network.type = macvlan'',
          ''lxc.network.flags = up'', ''lxc.network.link = eth0'', ''lxc.network.name = eth1'',
          ''lxc.network.hwaddr = 00:16:3e:00:00:01'', ''lxc.network.mtu = 1500'',
          ''lxc.network.ipv4 = 10.0.0.5/24'', ''lxc.network.ipv6 = fe80::1/10'']
         lxc_conf_init []
       = (Success,
          lxc_conf_init\<lparr>network :=
            [\<lparr>type = Some MACVLAN, flags = 1, link = Some ''eth0'', name = Some ''eth1'',
              hwaddr = Some ''00:16:3e:00:00:01'', mtu = Some ''1500'',
              ipv4 = [\<lparr>addr = In_addr 10 0 0 5, bcast = in_addr_zero, prefix = 24\<rparr>],
              ipv6 = [\<lparr>addr6 = [0xfe, 0x80, 0, 0, 0, 0, 0, 0, 0, 0, 0, 0, 0, 0, 0, 1],
                       prefix6 = 10\<rparr>]\<rparr>,
             netdev_zero\<lparr>type := Some VETH\<rparr>]\<rparr>,
          [])"
    by code_simp
  from m n l mem two hw mt r r2 show ?thesis by simp
qed

subsection \<open>The grammar of an IPv4 address line\<close>

text \<open>
  Claim C5. With a current device and both allocations succeeding, the handler of
  \<open>lxc.network.ipv4\<close> reads a value \<open>address[/prefix][ broadcast]\<close> as follows,
  where the address holds neither a space nor a slash and the prefix no space: the
  value is cut at its first space into the address part and the broadcast, the
  address part at its first slash into the address and the prefix. An address, or a
  broadcast, that \<open>inet_pton\<close> rejects makes the handler fail with
  \<open>InvalidAddress\<close> and leave the configuration as it was. Otherwise the new binding
  holds the address, the broadcast (zero when there is none) and as prefix length the
  \<open>int\<close> that \<open>atoi\<close> returns for the prefix (a number of 32 bits, not checked
  against the range 0 to 32), or the result of \<open>config_ip_prefix\<close> when there is
  none.
  The value \<open>10.0.0.5/24 10.0.0.255\<close> gives address 10.0.0.5, prefix length 24 and
  broadcast 10.0.0.255.
\<close>

theorem config_network_ipv4_grammar:
  assumes dev: "network conf = d # ds"
    and mem: "malloc h = (True, h1)" "malloc h1 = (True, h2)"
    and a: "CHR '' '' \<notin> set a" "CHR ''/'' \<notin> set a"
    and p: "CHR '' '' \<notin> set p"
  shows "(config_network_ipv4 P key a conf h =
           (case inet_pton4 a of
              None \<Rightarrow> (Failure InvalidAddress, conf, h2)
            | Some A \<Rightarrow>
                (Success,
                 conf\<lparr>network :=
                   d\<lparr>ipv4 := \<lparr>addr = A, bcast = in_addr_zero, prefix = config_ip_prefix P A\<rparr>
                              # ipv4 d\<rparr> # ds\<rparr>,
                 h2)))
       \<and> (config_network_ipv4 P key (a @ ''/'' @ p) conf h =
           (case inet_pton4 a of
              None \<Rightarrow> (Failure InvalidAddress, conf, h2)
            | Some A \<Rightarrow>
                (Success,
                 conf\<lparr>network :=
                   d\<lparr>ipv4 := \<lparr>addr = A, bcast = in_addr_zero, prefix = atoi P p\<rparr> # ipv4 d\<rparr> # ds\<rparr>,
                 h2)))
       \<and> (config_network_ipv4 P key (a @ '' '' @ b) conf h =
           (case inet_pton4 a of
              None \<Rightarrow> (Failure InvalidAddress, conf, h2)
            | Some A \<Rightarrow>
                (case inet_pton4 b of
                   None \<Rightarrow> (Failure InvalidAddress, conf, h2)
                 | Some B \<Rightarrow>
                     (Success,
                      conf\<lparr>network :=
                        d\<lparr>ipv4 := \<lparr>addr = A, bcast = B, prefix = config_ip_prefix P A\<rparr>
                                   # ipv4 d\<rparr> # ds\<rparr>,
                      h2))))
       \<and> (config_network_ipv4 P key (a @ ''/'' @ p @ '' '' @ b) conf h =
           (case inet_pton4 a of
              None \<Rightarrow> (Failure InvalidAddress, conf, h2)
            | Some A \<Rightarrow>
                (case inet_pton4 b of
                   None \<Rightarrow> (Failure InvalidAddress, conf, h2)
                 | Some B \<Rightarrow>
                     (Success,
                      conf\<lparr>network :=
                        d\<lparr>ipv4 := \<lparr>addr = A, bcast = B, prefix = atoi P p\<rparr> # ipv4 d\<rparr> # ds\<rparr>,
                      h2))))"
proof -
  note defs = config_network_ipv4_def network_netdev_Cons store_netdev_eq [OF dev]
    lxc_list_add_def inetdev_zero_def Let_def
  have s1: "split_at a '' '' = (a, None)" "split_at a ''/'' = (a, None)"
    using a by (simp_all add: split_at_None)
  have f1: "config_network_ipv4 P key a conf h =
           (case inet_pton4 a of
              None \<Rightarrow> (Failure InvalidAddress, conf, h2)
            | Some A \<Rightarrow>
                (Success,
                 conf\<lparr>network :=
                   d\<lparr>ipv4 := \<lparr>addr = A, bcast = in_addr_zero, prefix = config_ip_prefix P A\<rparr>
                              # ipv4 d\<rparr> # ds\<rparr>,
                 h2))"
    by (simp add: defs dev mem s1 split: option.splits)
  have s2: "split_at (a @ CHR ''/'' # p) '' '' = (a @ CHR ''/'' # p, None)"
    using a p by (simp add: split_at_None)
  have s3: "split_at (a @ CHR ''/'' # p) ''/'' = (a, Some p)"
    using a(2) by (rule split_at_first)
  have f2: "config_network_ipv4 P key (a @ ''/'' @ p) conf h =
           (case inet_pton4 a of
              None \<Rightarrow> (Failure InvalidAddress, conf, h2)
            | Some A \<Rightarrow>
                (Success,
                 conf\<lparr>network :=
                   d\<lparr>ipv4 := \<lparr>addr = A, bcast = in_addr_zero, prefix = atoi P p\<rparr> # ipv4 d\<rparr> # ds\<rparr>,
                 h2))"
    by (simp add: defs dev mem s2 s3 split: option.splits)
  have s4: "split_at (a @ CHR '' '' # b) '' '' = (a, Some b)"
    using a(1) by (rule split_at_first)
  have f3: "config_network_ipv4 P key (a @ '' '' @ b) conf h =
           (case inet_pton4 a of
              None \<Rightarrow> (Failure InvalidAddress, conf, h2)
            | Some A \<Rightarrow>
                (case inet_pton4 b of
                   None \<Rightarrow> (Failure InvalidAddress, conf, h2)
                 | Some B \<Rightarrow>
                     (Success,
                      conf\<lparr>network :=
                        d\<lparr>ipv4 := \<lparr>addr = A, bcast = B, prefix = config_ip_prefix P A\<rparr>
                                   # ipv4 d\<rparr> # ds\<rparr>,
                      h2)))"
    by (simp add: defs dev mem s1 s4 split: option.splits)
  have s5: "split_at (a @ CHR ''/'' # p @ CHR '' '' # b) '' '' = (a @ CHR ''/'' # p, Some b)"
    using a p split_at_first [of "CHR '' ''" "a @ CHR ''/'' # p" b] by simp
  have f4: "config_network_ipv4 P key (a @ ''/'' @ p @ '' '' @ b) conf h =
           (case inet_pton4 a of
              None \<Rightarrow> (Failure InvalidAddress, conf, h2)
            | Some A \<Rightarrow>
                (case inet_pton4 b of
                   None \<Rightarrow> (Failure InvalidAddress, conf, h2)
                 | Some B \<Rightarrow>
                     (Success,
                      conf\<lparr>network :=
                        d\<lparr>ipv4 := \<lparr>addr = A, bcast = B, prefix = atoi P p\<rparr> # ipv4 d\<rparr> # ds\<rparr>,
                      h2)))"
    by (simp add: defs dev mem s3 s5 split: option.splits)
  from f1 f2 f3 f4 show ?thesis by (intro conjI)
qed

theorem config_network_ipv4_grammar_witness:
  "network (lxc_conf_init\<lparr>network := [netdev_zero]\<rparr>) = netdev_zero # []
   \<and> malloc [] = (True, [])
   \<and> CHR '' '' \<notin> set ''10.0.0.5'' \<and> CHR ''/'' \<notin> set ''10.0.0.5'' \<and> CHR '' '' \<notin> set ''24''
   \<and> config_network_ipv4 linux_le ''lxc.network.ipv4'' ''10.0.0.5/24 10.0.0.255''
         (lxc_conf_init\<lparr>network := [netdev_zero]\<rparr>) []
       = (Success,
          lxc_conf_init\<lparr>network :=
            [netdev_zero\<lparr>ipv4 :=
               [\<lparr>addr = In_addr 10 0 0 5, bcast = In_addr 10 0 0 255, prefix = 24\<rparr>]\<rparr>]\<rparr>,
          [])
   \<and> config_network_ipv4 linux_le ''lxc.network.ipv4'' ''10.0.0.5/24 10.0.0.256''
         (lxc_conf_init\<lparr>network := [netdev_zero]\<rparr>) []
       = (Failure InvalidAddress, lxc_conf_init\<lparr>network := [netdev_zero]\<rparr>, [])
   \<and> CHR '' '' \<notin> set ''4294967296''
   \<and> config_network_ipv4 linux_le ''lxc.network.ipv4'' ''10.0.0.5/4294967296''
         (lxc_conf_init\<lparr>network := [netdev_zero]\<rparr>) []
       = (Success,
          lxc_conf_init\<lparr>network :=
            [netdev_zero\<lparr>ipv4 :=
               [\<lparr>addr = In_addr 10 0 0 5, bcast = in_addr_zero, prefix = 0\<rparr>]\<rparr>]\<rparr>,
          [])"
proof -
  have dev: "network (lxc_conf_init\<lparr>network := [netdev_zero]\<rparr>) = netdev_zero # []"
    by simp
  have mem: "malloc [] = (True, [])"
    by simp
  have a: "CHR '' '' \<notin> set ''10.0.0.5''" "CHR ''/'' \<notin> set ''10.0.0.5''"
    by simp_all
  have p: "CHR '' '' \<notin> set ''24''"
    by simp
  have ev: "inet_pton4 ''10.0.0.5'' = Some (In_addr 10 0 0 5)"
    "inet_pton4 ''10.0.0.255'' = Some (In_addr 10 0 0 255)"
    "inet_pton4 ''10.0.0.256'' = None"
    "atoi linux_le ''24'' = 24"
    "atoi linux_le ''4294967296'' = 0"
    by code_simp+
  from config_network_ipv4_grammar [OF dev mem mem a p, of linux_le "''lxc.network.ipv4''" "''10.0.0.255''"] ev
  have ok: "config_network_ipv4 linux_le ''lxc.network.ipv4'' ''10.0.0.5/24 10.0.0.255''
         (lxc_conf_init\<lparr>network := [netdev_zero]\<rparr>) []
       = (Success,
          lxc_conf_init\<lparr>network :=
            [netdev_zero\<lparr>ipv4 :=
               [\<lparr>addr = In_addr 10 0 0 5, bcast = In_addr 10 0 0 255, prefix = 24\<rparr>]\<rparr>]\<rparr>,
          [])"
    by (simp add: netdev_zero_def)
  from config_network_ipv4_grammar [OF dev mem mem a p, of linux_le "''lxc.network.ipv4''" "''10.0.0.256''"] ev
  have bad: "config_network_ipv4 linux_le ''lxc.network.ipv4'' ''10.0.0.5/24 10.0.0.256''
         (lxc_conf_init\<lparr>network := [netdev_zero]\<rparr>) []
       = (Failure InvalidAddress, lxc_conf_init\<lparr>network := [netdev_zero]\<rparr>, [])"
    by simp
  have p': "CHR '' '' \<notin> set ''4294967296''"
    by simp
  from config_network_ipv4_grammar [OF dev mem mem a p', of linux_le "''lxc.network.ipv4''"] ev
  have big: "config_network_ipv4 linux_le ''lxc.network.ipv4'' ''10.0.0.5/4294967296''
         (lxc_conf_init\<lparr>network := [netdev_zero]\<rparr>) []
       = (Success,
          lxc_conf_init\<lparr>network :=
            [netdev_zero\<lparr>ipv4 :=
               [\<lparr>addr = In_addr 10 0 0 5, bcast = in_addr_zero, prefix = 0\<rparr>]\<rparr>]\<rparr>,
          [])"
    by (simp add: netdev_zero_def)
  from dev mem a p ok bad p' big show ?thesis by simp
qed

subsection \<open>The mount handler\<close>

text \<open>
  Claim C6. On a heap without failing requests: for a key that contains
  \<open>lxc.mount.entry\<close> the mount handler appends the value to the list of mount
  entries and changes nothing else, the fstab path included; for a key that contains
  \<open>lxc.mount\<close> but not \<open>lxc.mount.entry\<close> it fails with \<open>PathTooLong\<close>,
  changing nothing, when the value is at least \<open>MAXPATHLEN\<close> long, and otherwise
  replaces the fstab path by the value and changes nothing else, the list of mount
  entries included.
\<close>

theorem config_mount_spec:
  assumes "no_fault h"
  shows "(key = pre @ ''lxc.mount.entry'' @ suf \<longrightarrow>
            config_mount P key val conf h
              = (Success, conf\<lparr>mount_list := mount_list conf @ [Some val]\<rparr>, tl (tl h)))
       \<and> ((\<nexists>p s. key = p @ ''lxc.mount.entry'' @ s) \<and> key = pre @ ''lxc.mount'' @ suf \<longrightarrow>
            config_mount P key val conf h
              = (if length val \<ge> MAXPATHLEN P then (Failure PathTooLong, conf, h)
                 else (Success, conf\<lparr>fstab := Some val\<rparr>, tl h)))"
proof (intro conjI impI)
  assume k: "key = pre @ ''lxc.mount.entry'' @ suf"
  then obtain i where i: "strstr key ''lxc.mount.entry'' = Some i" "i \<le> length pre"
    using strstr_append [of pre "''lxc.mount.entry''" suf] by auto
  from strstr_Some_le [OF i(1)] have "length (drop i key) \<noteq> 0" by simp
  with i(1) assms show "config_mount P key val conf h
      = (Success, conf\<lparr>mount_list := mount_list conf @ [Some val]\<rparr>, tl (tl h))"
    by (simp add: config_mount_def no_fault_malloc no_fault_strdup no_fault_tl
          lxc_list_add_tail_def)
next
  assume a: "(\<nexists>p s. key = p @ ''lxc.mount.entry'' @ s) \<and> key = pre @ ''lxc.mount'' @ suf"
  then have "\<nexists>p s. key = p @ ''lxc.mount.entry'' @ s" by (rule conjunct1)
  then have n: "strstr key ''lxc.mount.entry'' = None"
    by (rule iffD2 [OF strstr_None_iff])
  from a obtain j where j: "strstr key ''lxc.mount'' = Some j"
    using strstr_append [of pre "''lxc.mount''" suf] by auto
  from n j assms show "config_mount P key val conf h
      = (if length val \<ge> MAXPATHLEN P then (Failure PathTooLong, conf, h)
         else (Success, conf\<lparr>fstab := Some val\<rparr>, tl h))"
    by (simp add: config_mount_def config_fstab_def no_fault_strdup)
qed

theorem config_mount_spec_witness:
  "no_fault []
   \<and> config_mount linux_le ''lxc.mount.entry'' ''proc /proc proc defaults 0 0'' lxc_conf_init []
       = (Success, lxc_conf_init\<lparr>mount_list := [Some ''proc /proc proc defaults 0 0'']\<rparr>, [])
   \<and> config_mount linux_le ''lxc.mount'' ''/etc/fstab.lxc''
         (lxc_conf_init\<lparr>fstab := Some ''/etc/fstab''\<rparr>) []
       = (Success, lxc_conf_init\<lparr>fstab := Some ''/etc/fstab.lxc''\<rparr>, [])"
proof -
  have nf: "no_fault []" by (simp add: no_fault_def)
  have no: "\<nexists>p s. ''lxc.mount'' = p @ ''lxc.mount.entry'' @ s"
  proof
    assume "\<exists>p s. ''lxc.mount'' = p @ ''lxc.mount.entry'' @ s"
    then obtain p s where "''lxc.mount'' = p @ ''lxc.mount.entry'' @ s" by blast
    then have "length ''lxc.mount'' = length (p @ ''lxc.mount.entry'' @ s)" by (rule arg_cong)
    then show False by simp
  qed
  from config_mount_spec [OF nf, of "''lxc.mount.entry''" "[]" "[]" linux_le
         "''proc /proc proc defaults 0 0''" lxc_conf_init]
  have e: "config_mount linux_le ''lxc.mount.entry'' ''proc /proc proc defaults 0 0'' lxc_conf_init []
       = (Success, lxc_conf_init\<lparr>mount_list := [Some ''proc /proc proc defaults 0 0'']\<rparr>, [])"
    by (simp add: lxc_conf_init_def)
  from config_mount_spec [OF nf, of "''lxc.mount''" "[]" "[]" linux_le
         "''/etc/fstab.lxc''" "lxc_conf_init\<lparr>fstab := Some ''/etc/fstab''\<rparr>"] no
  have f: "config_mount linux_le ''lxc.mount'' ''/etc/fstab.lxc''
         (lxc_conf_init\<lparr>fstab := Some ''/etc/fstab''\<rparr>) []
       = (Success, lxc_conf_init\<lparr>fstab := Some ''/etc/fstab.lxc''\<rparr>, [])"
    by (simp add: linux_le_def)
  from nf e f show ?thesis by simp
qed

subsection \<open>The line parser\<close>

text \<open>
  Claim C7. A line that is empty after trimming on the left, or then starts with
  \<open>#\<close>, is skipped: \<open>parse_line\<close> succeeds and changes nothing. Any other line
  without \<open>=\<close> fails with \<open>InvalidDirective\<close>. Any other line is cut at its
  first \<open>=\<close>: the key is what stands before it and the value all that follows,
  further \<open>=\<close> included, both trimmed; the key selects the handler, which gets the
  key and the value and whose result is the result of the line, and a key that no
  name of the table is a prefix of makes the line fail with \<open>UnknownDirective\<close>.
\<close>

theorem parse_line_spec:
  "(spec_ltrim line = [] \<or> take 1 (spec_ltrim line) = ''#'' \<longrightarrow>
      parse_line P line conf h = (Success, conf, h))
   \<and> (spec_ltrim line \<noteq> [] \<and> take 1 (spec_ltrim line) \<noteq> ''#'' \<and> CHR ''='' \<notin> set line \<longrightarrow>
      parse_line P line conf h = (Failure InvalidDirective, conf, h))
   \<and> (spec_ltrim line \<noteq> [] \<and> take 1 (spec_ltrim line) \<noteq> ''#'' \<and> spec_ltrim line = k @ ''='' @ v
        \<and> CHR ''='' \<notin> set k \<longrightarrow>
      parse_line P line conf h =
        (case getconfig P (spec_rtrim k) of
           None \<Rightarrow> (Failure UnknownDirective, conf, h)
         | Some c \<Rightarrow> cb c (spec_rtrim k) (spec_rtrim (spec_ltrim v)) conf h))
   \<and> ((\<forall>c \<in> set (config P). take (length (name_cfg c)) key \<noteq> name_cfg c) \<longrightarrow>
      getconfig P key = None)"
proof (intro conjI impI)
  assume "spec_ltrim line = [] \<or> take 1 (spec_ltrim line) = ''#''"
  then show "parse_line P line conf h = (Success, conf, h)"
    by (auto simp: parse_line_def lxc_is_line_empty_def left_gc_ltrim Let_def spec_ltrim_def)
next
  assume a: "spec_ltrim line \<noteq> [] \<and> take 1 (spec_ltrim line) \<noteq> ''#'' \<and> CHR ''='' \<notin> set line"
  then have "CHR ''='' \<notin> set (spec_ltrim line)"
    unfolding spec_ltrim_def using set_dropWhileD by fastforce
  then have "strstr (spec_ltrim line) ''='' = None"
    by (rule strstr_char_None)
  with a show "parse_line P line conf h = (Failure InvalidDirective, conf, h)"
    by (simp add: parse_line_def lxc_is_line_empty_def left_gc_ltrim Let_def)
       (simp add: spec_ltrim_def)
next
  assume a: "spec_ltrim line \<noteq> [] \<and> take 1 (spec_ltrim line) \<noteq> ''#'' \<and> spec_ltrim line = k @ ''='' @ v
        \<and> CHR ''='' \<notin> set k"
  then have l: "spec_ltrim line = k @ CHR ''='' # v" and k: "CHR ''='' \<notin> set k"
    by simp_all
  from k have s: "strstr (k @ CHR ''='' # v) ''='' = Some (length k)"
    by (rule strstr_char_first)
  from a have n1: "spec_ltrim line \<noteq> []" and n2: "take 1 (spec_ltrim line) \<noteq> ''#''"
    by blast+
  from n1 have "\<not> lxc_is_line_empty line"
    by (simp add: lxc_is_line_empty_def spec_ltrim_def)
  note ne = this n2
  from ne show "parse_line P line conf h =
        (case getconfig P (spec_rtrim k) of
           None \<Rightarrow> (Failure UnknownDirective, conf, h)
         | Some c \<Rightarrow> cb c (spec_rtrim k) (spec_rtrim (spec_ltrim v)) conf h)"
    by (simp add: parse_line_def left_gc_ltrim l s right_gc_rtrim Let_def)
next
  assume "\<forall>c \<in> set (config P). take (length (name_cfg c)) key \<noteq> name_cfg c"
  then show "getconfig P key = None"
    by (simp add: getconfig_def getconfig_from_None)
qed


theorem parse_line_spec_witness:
  "parse_line linux_le ''  # a comment'' lxc_conf_init [] = (Success, lxc_conf_init, [])
   \<and> parse_line linux_le ''not a directive'' lxc_conf_init []
       = (Failure InvalidDirective, lxc_conf_init, [])
   \<and> parse_line linux_le ''lxc.utsname = a=b'' lxc_conf_init []
       = (Success, lxc_conf_init\<lparr>utsname := Some \<lparr>nodename = ''a=b''\<rparr>\<rparr>, [])
   \<and> parse_line linux_le ''lxc.bogus = 1'' lxc_conf_init []
       = (Failure UnknownDirective, lxc_conf_init, [])"
proof -
  have t1: "spec_ltrim ''  # a comment'' = ''# a comment''"
    and t2: "spec_ltrim ''not a directive'' = ''not a directive''"
    and t3: "spec_ltrim ''lxc.utsname = a=b'' = ''lxc.utsname '' @ ''='' @ '' a=b''"
    and t4: "spec_ltrim ''lxc.bogus = 1'' = ''lxc.bogus '' @ ''='' @ '' 1''"
    and t5: "spec_rtrim ''lxc.utsname '' = ''lxc.utsname''" "spec_rtrim (spec_ltrim '' a=b'') = ''a=b''"
    and t6: "spec_rtrim ''lxc.bogus '' = ''lxc.bogus''"
    by code_simp+
  from parse_line_spec [of "''  # a comment''" linux_le lxc_conf_init "[]"] t1
  have c1: "parse_line linux_le ''  # a comment'' lxc_conf_init [] = (Success, lxc_conf_init, [])"
    by simp
  from parse_line_spec [of "''not a directive''" linux_le lxc_conf_init "[]"] t2
  have c2: "parse_line linux_le ''not a directive'' lxc_conf_init []
       = (Failure InvalidDirective, lxc_conf_init, [])"
    by simp
  have g3: "getconfig linux_le ''lxc.utsname''
              = Some \<lparr>name_cfg = ''lxc.utsname'', cb = config_utsname linux_le\<rparr>"
    by (simp add: getconfig_def config_def strncmp_eq_def)
  have u: "config_utsname linux_le ''lxc.utsname'' ''a=b'' lxc_conf_init []
             = (Success, lxc_conf_init\<lparr>utsname := Some \<lparr>nodename = ''a=b''\<rparr>\<rparr>, [])"
    by (simp add: config_utsname_def linux_le_def)
  from parse_line_spec [of "''lxc.utsname = a=b''" linux_le lxc_conf_init "[]"
         "''lxc.utsname ''" "'' a=b''"] t3 t5 g3 u
  have c3: "parse_line linux_le ''lxc.utsname = a=b'' lxc_conf_init []
       = (Success, lxc_conf_init\<lparr>utsname := Some \<lparr>nodename = ''a=b''\<rparr>\<rparr>, [])"
    by simp
  have n4: "\<forall>c \<in> set (config linux_le). take (length (name_cfg c)) ''lxc.bogus'' \<noteq> name_cfg c"
    by (simp add: config_def)
  with parse_line_spec [of _ linux_le _ _ _ _ "''lxc.bogus''"]
  have g4: "getconfig linux_le ''lxc.bogus'' = None"
    by blast
  from parse_line_spec [of "''lxc.bogus = 1''" linux_le lxc_conf_init "[]"
         "''lxc.bogus ''" "'' 1''"] t4 t6 g4
  have c4: "parse_line linux_le ''lxc.bogus = 1'' lxc_conf_init []
       = (Failure UnknownDirective, lxc_conf_init, [])"
    by simp
  from c1 c2 c3 c4 show ?thesis by simp
qed

subsection \<open>The host name\<close>

text \<open>
  Claim C8. Once its \<open>struct utsname\<close> is allocated, the \<open>lxc.utsname\<close> handler
  fails with \<open>NameTooLong\<close> for every value at least as long as the
  \<open>nodename\<close> field, leaving the configuration as it was, and for every value one
  character shorter than the field it succeeds and stores the value as host name.
\<close>

theorem config_utsname_limit:
  assumes "malloc h = (True, h1)"
  shows "(length val \<ge> sizeof_nodename P \<longrightarrow>
            config_utsname P key val conf h = (Failure NameTooLong, conf, h1))
       \<and> (Suc (length val) = sizeof_nodename P \<longrightarrow>
            config_utsname P key val conf h
              = (Success, conf\<lparr>utsname := Some \<lparr>nodename = val\<rparr>\<rparr>, h1))"
  using assms by (auto simp: config_utsname_def)

theorem config_utsname_limit_witness:
  "malloc [] = (True, [])
   \<and> config_utsname linux_le ''lxc.utsname'' (replicate 65 CHR ''a'') lxc_conf_init []
       = (Failure NameTooLong, lxc_conf_init, [])
   \<and> config_utsname linux_le ''lxc.utsname'' (replicate 64 CHR ''a'') lxc_conf_init []
       = (Success, lxc_conf_init\<lparr>utsname := Some \<lparr>nodename = replicate 64 CHR ''a''\<rparr>\<rparr>, [])"
  using config_utsname_limit [of "[]" "[]" linux_le "replicate 65 CHR ''a''" "''lxc.utsname''" lxc_conf_init]
        config_utsname_limit [of "[]" "[]" linux_le "replicate 64 CHR ''a''" "''lxc.utsname''" lxc_conf_init]
  by (simp add: linux_le_def)

subsection \<open>The flags handler\<close>

text \<open>
  Claim C9. The \<open>lxc.network.flags\<close> handler is idempotent: on a configuration with
  at least one device it succeeds, and applying it to its own result gives that
  result again. The result differs from the configuration it started from only in
  the flags of the first device, which are OR-ed with \<open>IFF_UP\<close>.
\<close>

theorem config_network_flags_idempotent:
  assumes "network conf \<noteq> []"
  shows "\<exists>conf1.
           config_network_flags key val conf h = (Success, conf1, h)
         \<and> config_network_flags key val conf1 h = (Success, conf1, h)
         \<and> conf1 = conf\<lparr>network :=
                      (hd (network conf))\<lparr>flags := flags (hd (network conf)) OR IFF_UP\<rparr>
                        # tl (network conf)\<rparr>"
proof -
  from assms obtain d ds where nw: "network conf = d # ds"
    by (cases "network conf") auto
  let ?d1 = "d\<lparr>flags := flags d OR IFF_UP\<rparr>"
  let ?c1 = "conf\<lparr>network := ?d1 # ds\<rparr>"
  have once: "config_network_flags key val conf h = (Success, ?c1, h)"
    by (simp add: config_network_flags_def nw network_netdev_Cons store_netdev_def)
  have "flags ?d1 OR IFF_UP = flags ?d1"
    by (simp add: or.assoc)
  then have twice: "config_network_flags key val ?c1 h = (Success, ?c1, h)"
    by (simp add: config_network_flags_def network_netdev_Cons store_netdev_def)
  from once twice show ?thesis
    by (simp add: nw)
qed

theorem config_network_flags_idempotent_witness:
  "network (lxc_conf_init\<lparr>network := [netdev_zero]\<rparr>) \<noteq> []
   \<and> config_network_flags ''lxc.network.flags'' ''up''
         (lxc_conf_init\<lparr>network := [netdev_zero\<lparr>flags := 1\<rparr>]\<rparr>) []
       = (Success, lxc_conf_init\<lparr>network := [netdev_zero\<lparr>flags := 1\<rparr>]\<rparr>, [])
   \<and> config_network_flags ''lxc.network.flags'' ''up''
         (lxc_conf_init\<lparr>network := [netdev_zero]\<rparr>) []
       = (Success, lxc_conf_init\<lparr>network := [netdev_zero\<lparr>flags := 1\<rparr>]\<rparr>, [])"
  using config_network_flags_idempotent
          [of "lxc_conf_init\<lparr>network := [netdev_zero]\<rparr>" "''lxc.network.flags''" "''up''" "[]"]
  by (simp add: netdev_zero_def IFF_UP_def)

subsection \<open>The scalar handlers\<close>

text \<open>
  Claim C10. Each scalar handler writes its own field only: when \<open>lxc.rootfs\<close>
  (\<open>lxc.pivotdir\<close>) succeeds, the configuration it leaves is the one it was given
  with the root file system path (the pivot directory) set to the value;
  \<open>lxc.pts\<close> and \<open>lxc.tty\<close> always succeed and set their count to the \<open>int\<close>
  that \<open>atoi\<close> returns for the value, a number of 32 bits: 0 for a value that does
  not start with a number, and for a number that does not fit the low 32 bits of what
  \<open>strtol\<close> returns. The device, cgroup and mount lists and every other field are as
  before.
\<close>

theorem scalar_handlers_own_field:
  "(config_rootfs P key val conf h = (Success, conf', h') \<longrightarrow>
      conf' = conf\<lparr>rootfs := Some val\<rparr>)
   \<and> (config_pivotdir P key val conf h = (Success, conf', h') \<longrightarrow>
      conf' = conf\<lparr>pivotdir := Some val\<rparr>)
   \<and> config_pts P key val conf h = (Success, conf\<lparr>pts := atoi P val\<rparr>, h)
   \<and> config_tty P key val conf h = (Success, conf\<lparr>tty := atoi P val\<rparr>, h)
   \<and> - (2 ^ 31) \<le> atoi P val \<and> atoi P val < 2 ^ 31"
  using atoi_range [of P val]
  by (auto simp: config_rootfs_def config_pivotdir_def config_pts_def config_tty_def
        strdup_def split: if_splits prod.splits option.splits)

theorem scalar_handlers_own_field_witness:
  "config_rootfs linux_le ''lxc.rootfs'' ''/srv/c1'' lxc_conf_init []
     = (Success, lxc_conf_init\<lparr>rootfs := Some ''/srv/c1''\<rparr>, [])
   \<and> config_pivotdir linux_le ''lxc.pivotdir'' ''mnt'' lxc_conf_init []
     = (Success, lxc_conf_init\<lparr>pivotdir := Some ''mnt''\<rparr>, [])
   \<and> config_pts linux_le ''lxc.pts'' ''1024'' lxc_conf_init []
     = (Success, lxc_conf_init\<lparr>pts := 1024\<rparr>, [])
   \<and> config_tty linux_le ''lxc.tty'' ''4'' lxc_conf_init []
     = (Success, lxc_conf_init\<lparr>tty := 4\<rparr>, [])
   \<and> config_pts linux_le ''lxc.pts'' ''99999999999'' lxc_conf_init []
     = (Success, lxc_conf_init\<lparr>pts := 1215752191\<rparr>, [])
   \<and> config_tty linux_le ''lxc.tty'' ''none'' lxc_conf_init []
     = (Success, lxc_conf_init\<lparr>tty := 0\<rparr>, [])"
proof -
  have r: "config_rootfs linux_le ''lxc.rootfs'' ''/srv/c1'' lxc_conf_init []
             = (Success, lxc_conf_init\<lparr>rootfs := Some ''/srv/c1''\<rparr>, [])"
    by (simp add: config_rootfs_def linux_le_def strdup_def)
  have p: "config_pivotdir linux_le ''lxc.pivotdir'' ''mnt'' lxc_conf_init []
             = (Success, lxc_conf_init\<lparr>pivotdir := Some ''mnt''\<rparr>, [])"
    by (simp add: config_pivotdir_def linux_le_def strdup_def)
  have a: "atoi linux_le ''1024'' = 1024" "atoi linux_le ''4'' = 4"
    "atoi linux_le ''99999999999'' = 1215752191" "atoi linux_le ''none'' = 0"
    by code_simp+
  from scalar_handlers_own_field
         [of linux_le "''lxc.rootfs''" "''/srv/c1''" lxc_conf_init "[]"
             "lxc_conf_init\<lparr>rootfs := Some ''/srv/c1''\<rparr>" "[]"]
       scalar_handlers_own_field
         [of linux_le "''lxc.pts''" "''1024''" lxc_conf_init "[]"]
       scalar_handlers_own_field
         [of linux_le "''lxc.tty''" "''4''" lxc_conf_init "[]"]
       scalar_handlers_own_field
         [of linux_le "''lxc.pts''" "''99999999999''" lxc_conf_init "[]"]
       scalar_handlers_own_field
         [of linux_le "''lxc.tty''" "''none''" lxc_conf_init "[]"]
       r p a
  show ?thesis by simp
qed

end
